theory Spec2Isabelle
  imports Main "HOL-Library.Word"
begin

section \<open>Podman container statistics: data model\<close>

text \<open>
  The development follows \<^verbatim>\<open>lib/container_podman_stats.c\<close>: the two token scans
  \<^verbatim>\<open>json_parser_stats\<close> and \<^verbatim>\<open>json_parser_list\<close> and the aggregation
  \<^verbatim>\<open>podman_stats\<close>.  A jsmn token is a kind and a span of the JSON buffer.
\<close>

datatype jsmntype = JSMN_UNDEFINED | JSMN_OBJECT | JSMN_ARRAY | JSMN_STRING | JSMN_PRIMITIVE

record jsmntok =
  tok_type :: jsmntype
  tok_start :: int
  tok_end :: int

abbreviation tok :: "jsmntype \<Rightarrow> int \<Rightarrow> int \<Rightarrow> jsmntok" where
  "tok ty s e \<equiv> \<lparr>tok_type = ty, tok_start = s, tok_end = e\<rparr>"

text \<open>
  Every way in which a call can stop without returning: \<^verbatim>\<open>plugin_error\<close> prints its
  message and exits the process, a failed \<^verbatim>\<open>assert\<close> aborts, and a read past the
  token array, an overflow of the parameter buffer or the use of the never assigned
  \<^verbatim>\<open>stats.name\<close> is undefined behaviour of the C program.  \<open>invalid_identifier\<close>
  is the failure of the identifier shortener.
\<close>

datatype error =
    plugin_error string
  | assert_failure
  | undefined_behaviour
  | invalid_identifier

text \<open>
  \<^verbatim>\<open>container_stats_t\<close>: the counters are \<^verbatim>\<open>unsigned long\<close> (64 bits on Linux LP64;
  they are printed with \<^verbatim>\<open>%lu\<close>); \<open>name\<close> is a \<^verbatim>\<open>char *\<close> that the scan assigns only
  when the key is found, \<open>None\<close> being the pointer that was never assigned.
\<close>

record container_stats_t =
  mem_limit :: "64 word"
  mem_usage :: "64 word"
  name :: "string option"

text \<open>Modelled from the spec: the selector of \<^verbatim>\<open>units.h\<close> (bytes, kB, MB, GB).\<close>

datatype unit_shift = b_shift | k_shift | m_shift | g_shift

text \<open>
  The varlink connection, seen from this file: \<^verbatim>\<open>podman_varlink_get\<close> answers a
  method and an optional parameter with the JSON text, or with an error message
  (\<^verbatim>\<open>ret < 0\<close>).  Every call is recorded in a log, in order.
\<close>

type_synonym varlink = "string \<Rightarrow> string option \<Rightarrow> string + string"
type_synonym call = "string \<times> string option"

definition podman_varlink_get ::
  "varlink \<Rightarrow> string \<Rightarrow> string option \<Rightarrow> call list \<Rightarrow> (string + string) \<times> call list" where
  "podman_varlink_get pv varlinkmethod param log =
     (pv varlinkmethod param, log @ [(varlinkmethod, param)])"

section \<open>Helpers of the repository that this file calls\<close>

text \<open>
  Modelled from the spec: \<^verbatim>\<open>json_token_tostr\<close> of \<^verbatim>\<open>json_helpers.c\<close>, the decoded
  text of a token, that is the bytes of its span in the buffer.
\<close>

definition json_token_tostr :: "string \<Rightarrow> jsmntok \<Rightarrow> string" where
  "json_token_tostr json t =
     take (nat (tok_end t - tok_start t)) (drop (nat (tok_start t)) json)"

text \<open>
  Modelled from the spec: \<^verbatim>\<open>json_token_streq\<close> of \<^verbatim>\<open>json_helpers.c\<close>, which
  compares the decoded text of a token with a string; the callers test the result
  against 0, which means equal.
\<close>

definition json_token_streq :: "string \<Rightarrow> jsmntok \<Rightarrow> string \<Rightarrow> int" where
  "json_token_streq json t s = (if json_token_tostr json t = s then 0 else - 1)"

text \<open>
  Modelled from the spec: \<^verbatim>\<open>podman_array_is_full\<close>, true when each of the first
  \<open>n\<close> slots holds a value.
\<close>

definition podman_array_is_full :: "string option list \<Rightarrow> nat \<Rightarrow> bool" where
  "podman_array_is_full vals n = list_all (\<lambda>v. v \<noteq> None) (take n vals)"

text \<open>
  Modelled from the spec: \<^verbatim>\<open>podman_shortid\<close>, the first \<open>N\<close> characters of an
  identifier (\<open>N = 8\<close>), failing on an identifier shorter than \<open>N\<close>.
\<close>

definition shortid_chars :: nat where
  "shortid_chars = 8"

definition podman_shortid :: "string \<Rightarrow> error + string" where
  "podman_shortid ident =
     (if length ident < shortid_chars then Inl invalid_identifier
      else Inr (take shortid_chars ident))"

text \<open>
  Modelled from the spec: the counter of \<^verbatim>\<open>collection.c\<close>, a mapping from key to
  count that keeps the keys in the order of their first insertion; putting a key
  that is present changes nothing.
\<close>

type_synonym hashtable_t = "(string \<times> nat) list"

definition counter_create :: hashtable_t where
  "counter_create = []"

definition hashtable_keys :: "hashtable_t \<Rightarrow> string list" where
  "hashtable_keys h = map fst h"

definition counter_put :: "hashtable_t \<Rightarrow> string \<Rightarrow> nat \<Rightarrow> hashtable_t" where
  "counter_put h key increment =
     (if key \<in> set (hashtable_keys h) then h else h @ [(key, increment)])"

definition counter_get_unique_elements :: "hashtable_t \<Rightarrow> nat" where
  "counter_get_unique_elements h = length (hashtable_keys h)"

text \<open>
  Modelled from the spec: \<^verbatim>\<open>strtol_or_err\<close> of \<^verbatim>\<open>xstrtol.c\<close> reads a base-10
  unsigned integer; text that is not a number of the counter's 64 bits is fatal, with
  the message the caller passes.
\<close>

definition is_digit :: "char \<Rightarrow> bool" where
  "is_digit c = (c \<in> set ''0123456789'')"

definition digit_val :: "char \<Rightarrow> nat" where
  "digit_val c = of_char c - 48"

definition strtol_or_err :: "string \<Rightarrow> string \<Rightarrow> error + 64 word" where
  "strtol_or_err str errmesg =
     (let num = foldl (\<lambda>a c. 10 * a + digit_val c) 0 str in
      if str \<noteq> [] \<and> list_all is_digit str \<and> num < 2 ^ 64
      then Inr (word_of_nat num) else Inl (plugin_error errmesg))"

text \<open>The conversions \<^verbatim>\<open>%u\<close>, \<^verbatim>\<open>%lu\<close> and \<^verbatim>\<open>%llu\<close> of printf: decimal digits.\<close>

function printf_u :: "nat \<Rightarrow> string" where
  "printf_u n =
     (if n < 10 then [''0123456789'' ! n]
      else printf_u (n div 10) @ [''0123456789'' ! (n mod 10)])"
  by pat_completeness auto
termination
  by (relation "measure id") auto

declare printf_u.simps [simp del]

section \<open>The single-item scan: \<^verbatim>\<open>json_parser_stats\<close>\<close>

definition stats_keys :: "string list" where
  "stats_keys = [''mem_limit'', ''mem_usage'', ''name'']"

definition stats_root_key :: string where
  "stats_root_key = ''container''"

text \<open>
  The inner loop over the keys (lines 128-138 and 265-275): at the first key equal to
  the token \<open>t\<close>, the text of the next token \<^verbatim>\<open>tokens[++i]\<close> goes to the slot of the
  key and the loop breaks.  \<open>rest\<close> holds the tokens after \<open>t\<close>; the first component
  of the result is the number of tokens that \<^verbatim>\<open>++i\<close> has skipped.  When \<open>t\<close> is the
  last token, \<^verbatim>\<open>tokens[++i]\<close> lies past the array.
\<close>

fun keys_loop ::
  "string \<Rightarrow> jsmntok \<Rightarrow> jsmntok list \<Rightarrow> string list \<Rightarrow> nat \<Rightarrow> string option list
     \<Rightarrow> error + (nat \<times> string option list)" where
  "keys_loop json t rest [] j vals = Inr (0, vals)"
| "keys_loop json t rest (k # ks) j vals =
     (if json_token_streq json t k = 0 then
        (case rest of
           [] \<Rightarrow> Inl undefined_behaviour
         | v # _ \<Rightarrow> Inr (1, vals[j := Some (json_token_tostr json v)]))
      else keys_loop json t rest ks (Suc j) vals)"

text \<open>The switch on the token type (lines 116-145); \<open>level\<close> never exceeds 2.\<close>

definition stats_switch ::
  "string \<Rightarrow> jsmntok \<Rightarrow> jsmntok list \<Rightarrow> nat \<Rightarrow> string option list
     \<Rightarrow> error + (nat \<times> nat \<times> string option list)" where
  \<open>stats_switch json t rest level vals =
     (case tok_type t of
        JSMN_OBJECT \<Rightarrow> Inr (0, if level < 2 then level + 1 else level, vals)
      | JSMN_STRING \<Rightarrow>
          if 1 = level \<and> 0 \<noteq> json_token_streq json t stats_root_key
          then Inl (plugin_error ''json_parser_stats: expected string "container" not found'')
          else (case keys_loop json t rest stats_keys 0 vals of
                  Inl e \<Rightarrow> Inl e
                | Inr (k, vals') \<Rightarrow> Inr (k, level, vals'))
      | _ \<Rightarrow>
          if 0 = level
          then Inl (plugin_error ''json_parser_stats: root element must be an object'')
          else Inr (0, level, vals))\<close>

text \<open>
  The end of the loop body (lines 147-155): each slot that holds a value is converted
  and stored again, at every token.
\<close>

definition stats_update ::
  "string option list \<Rightarrow> container_stats_t \<Rightarrow> error + container_stats_t" where
  "stats_update vals stats =
     (case (case vals ! 0 of
              None \<Rightarrow> Inr stats
            | Some s \<Rightarrow>
                (case strtol_or_err s ''failed to parse mem_limit counter'' of
                   Inl e \<Rightarrow> Inl e
                 | Inr n \<Rightarrow> Inr (stats\<lparr>mem_limit := n\<rparr>))) of
        Inl e \<Rightarrow> Inl e
      | Inr stats1 \<Rightarrow>
          (case (case vals ! 1 of
                   None \<Rightarrow> Inr stats1
                 | Some s \<Rightarrow>
                     (case strtol_or_err s ''failed to parse mem_usage counter'' of
                        Inl e \<Rightarrow> Inl e
                      | Inr n \<Rightarrow> Inr (stats1\<lparr>mem_usage := n\<rparr>))) of
             Inl e \<Rightarrow> Inl e
           | Inr stats2 \<Rightarrow>
               (case vals ! 2 of
                  None \<Rightarrow> Inr stats2
                | Some s \<Rightarrow> Inr (stats2\<lparr>name := Some s\<rparr>))))"

text \<open>
  The loop over the tokens (lines 101-156).  The argument list is
  \<^verbatim>\<open>tokens[i .. ntoken)\<close>; \<open>level\<close> is a \<^verbatim>\<open>size_t\<close> that stays below the number of
  tokens, so it is a natural number.
\<close>

fun stats_loop ::
  "string \<Rightarrow> jsmntok list \<Rightarrow> nat \<Rightarrow> string option list \<Rightarrow> container_stats_t
     \<Rightarrow> error + container_stats_t" where
  "stats_loop json [] level vals stats = Inr stats"
| "stats_loop json (t # rest) level vals stats =
     (if \<not> (tok_start t \<noteq> - 1 \<and> tok_end t \<noteq> - 1) then Inl assert_failure
      else
        (case stats_switch json t rest level vals of
           Inl e \<Rightarrow> Inl e
         | Inr (k, level', vals') \<Rightarrow>
             (case stats_update vals' stats of
                Inl e \<Rightarrow> Inl e
              | Inr stats' \<Rightarrow> stats_loop json (drop k rest) level' vals' stats')))"

text \<open>
  \<^verbatim>\<open>json_parser_stats\<close> (lines 65-167).  \<open>json_tokenise\<close> is the tokenizer of
  \<^verbatim>\<open>json_helpers.c\<close>, a parameter here: it returns the tokens of a text, or nothing
  (\<^verbatim>\<open>NULL\<close>) when the text is not JSON.  The parameter buffer has 80 bytes, of which
  the braces, the key, the quotes and the final zero take 12.
\<close>

definition json_parser_stats ::
  "varlink \<Rightarrow> (string \<Rightarrow> jsmntok list option) \<Rightarrow> string \<Rightarrow> call list
     \<Rightarrow> (error + container_stats_t) \<times> call list" where
  \<open>json_parser_stats pv json_tokenise ident log =
     (if length ident > 68 then (Inl undefined_behaviour, log)
      else
        (case podman_varlink_get pv ''io.podman.GetContainerStats''
                (Some (''{"name":"'' @ ident @ ''"}'')) log of
           (Inl errmsg, log') \<Rightarrow> (Inl (plugin_error errmsg), log')
         | (Inr json, log') \<Rightarrow>
             (case json_tokenise json of
                None \<Rightarrow> (Inl (plugin_error ''invalid or corrupted JSON data''), log')
              | Some tokens \<Rightarrow>
                  (stats_loop json tokens 0 [None, None, None]
                     \<lparr>mem_limit = 0, mem_usage = 0, name = None\<rparr>, log'))))\<close>

section \<open>The multi-item scan: \<^verbatim>\<open>json_parser_list\<close>\<close>

definition list_keys :: "string list" where
  "list_keys = [''containerrunning'', ''id'', ''image'']"

definition list_root_key :: string where
  "list_root_key = ''containers''"

text \<open>The switch on the token type (lines 254-282); here \<open>level\<close> has no bound.\<close>

definition list_switch ::
  "string \<Rightarrow> jsmntok \<Rightarrow> jsmntok list \<Rightarrow> nat \<Rightarrow> string option list
     \<Rightarrow> error + (nat \<times> nat \<times> string option list)" where
  \<open>list_switch json t rest level vals =
     (case tok_type t of
        JSMN_OBJECT \<Rightarrow> Inr (0, level + 1, vals)
      | JSMN_STRING \<Rightarrow>
          if 1 = level \<and> 0 \<noteq> json_token_streq json t list_root_key
          then Inl (plugin_error ''json_parser_list: expected string "containers" not found'')
          else (case keys_loop json t rest list_keys 0 vals of
                  Inl e \<Rightarrow> Inl e
                | Inr (k, vals') \<Rightarrow> Inr (k, level, vals'))
      | _ \<Rightarrow>
          if 0 = level
          then Inl (plugin_error ''json_parser_list: root element must be an object'')
          else Inr (0, level, vals))\<close>

text \<open>
  The block that follows the switch (lines 284-305).  The slots are
  \<^verbatim>\<open>containerrunning\<close>, \<^verbatim>\<open>id\<close> and \<^verbatim>\<open>image\<close>; \<^verbatim>\<open>STREQ\<close> and \<^verbatim>\<open>STRNEQ\<close> are
  equality and inequality of strings.  \<open>image_name\<close> is \<open>None\<close> for a null pointer.
\<close>

definition list_flush ::
  "string option \<Rightarrow> string option list \<Rightarrow> hashtable_t
     \<Rightarrow> error + (string option list \<times> hashtable_t)" where
  "list_flush image_name vals hashtable =
     (if podman_array_is_full vals 3 then
        (case (if the (vals ! 0) = ''true'' then
                 (if image_name \<noteq> None \<and> the (vals ! 2) \<noteq> the image_name
                  then Inr hashtable
                  else (case podman_shortid (the (vals ! 1)) of
                          Inl e \<Rightarrow> Inl e
                        | Inr shortid \<Rightarrow> Inr (counter_put hashtable shortid 1)))
               else Inr hashtable) of
           Inl e \<Rightarrow> Inl e
         | Inr hashtable' \<Rightarrow> Inr (vals[0 := None, 1 := None, 2 := None], hashtable'))
      else Inr (vals, hashtable))"

text \<open>The loop over the tokens (lines 239-306).\<close>

fun list_loop ::
  "string \<Rightarrow> string option \<Rightarrow> jsmntok list \<Rightarrow> nat \<Rightarrow> string option list \<Rightarrow> hashtable_t
     \<Rightarrow> error + hashtable_t" where
  "list_loop json image_name [] level vals hashtable = Inr hashtable"
| "list_loop json image_name (t # rest) level vals hashtable =
     (if \<not> (tok_start t \<noteq> - 1 \<and> tok_end t \<noteq> - 1) then Inl assert_failure
      else
        (case list_switch json t rest level vals of
           Inl e \<Rightarrow> Inl e
         | Inr (k, level', vals') \<Rightarrow>
             (case list_flush image_name vals' hashtable of
                Inl e \<Rightarrow> Inl e
              | Inr (vals'', hashtable') \<Rightarrow>
                  list_loop json image_name (drop k rest) level' vals'' hashtable')))"

text \<open>\<^verbatim>\<open>json_parser_list\<close> (lines 207-309).\<close>

definition json_parser_list ::
  "varlink \<Rightarrow> (string \<Rightarrow> jsmntok list option) \<Rightarrow> string option \<Rightarrow> call list
     \<Rightarrow> (error + hashtable_t) \<times> call list" where
  "json_parser_list pv json_tokenise image_name log =
     (case podman_varlink_get pv ''io.podman.ListContainers'' None log of
        (Inl errmsg, log') \<Rightarrow> (Inl (plugin_error errmsg), log')
      | (Inr json, log') \<Rightarrow>
          (case json_tokenise json of
             None \<Rightarrow> (Inl (plugin_error ''invalid or corrupted JSON data''), log')
           | Some tokens \<Rightarrow>
               (list_loop json image_name tokens 0 [None, None, None] counter_create, log')))"

section \<open>The aggregation: \<^verbatim>\<open>podman_stats\<close>\<close>

text \<open>
  What a call that returns 0 leaves behind: the total (an \<^verbatim>\<open>unsigned long long\<close>),
  the status string and the contents of the memory stream.
\<close>

record podman_stats_out =
  tot_memory :: "64 word"
  status :: string
  perfdata :: string

text \<open>
  The loop over the keys of the counter (lines 328-338); the argument list holds
  \<^verbatim>\<open>hashtable->keys[j]\<close> for the values of \<open>j\<close> still to come.  Printing a name that
  the scan has not assigned reads an uninitialised pointer.
\<close>

fun podman_stats_loop ::
  "varlink \<Rightarrow> (string \<Rightarrow> jsmntok list option) \<Rightarrow> string list \<Rightarrow> string \<Rightarrow> 64 word
     \<Rightarrow> call list \<Rightarrow> (error + string \<times> 64 word) \<times> call list" where
  "podman_stats_loop pv json_tokenise [] stream tot log = (Inr (stream, tot), log)"
| "podman_stats_loop pv json_tokenise (shortid # ids) stream tot log =
     (case json_parser_stats pv json_tokenise shortid log of
        (Inl e, log') \<Rightarrow> (Inl e, log')
      | (Inr stats, log') \<Rightarrow>
          (case name stats of
             None \<Rightarrow> (Inl undefined_behaviour, log')
           | Some nm \<Rightarrow>
               podman_stats_loop pv json_tokenise ids
                 (stream @ nm @ ''='' @ printf_u (unat (mem_usage stats div 1000))
                    @ ''kB;;;0;'' @ printf_u (unat (mem_limit stats div 1000)) @ '' '')
                 (tot + mem_usage stats) log'))"

text \<open>
  \<^verbatim>\<open>podman_stats\<close> (lines 311-367).  \<open>printf_g\<close> stands for the conversion \<^verbatim>\<open>%g\<close> of
  the total divided by a power of ten in double precision, which is left to the C
  library; the other conversions are decimal digits.
\<close>

definition podman_stats ::
  "varlink \<Rightarrow> (string \<Rightarrow> jsmntok list option) \<Rightarrow> (64 word \<Rightarrow> nat \<Rightarrow> string)
     \<Rightarrow> unit_shift \<Rightarrow> string option \<Rightarrow> (error + podman_stats_out) \<times> call list" where
  "podman_stats pv json_tokenise printf_g shift image_name =
     (case json_parser_list pv json_tokenise image_name [] of
        (Inl e, log) \<Rightarrow> (Inl e, log)
      | (Inr hashtable, log) \<Rightarrow>
          (let containers = counter_get_unique_elements hashtable in
           (case podman_stats_loop pv json_tokenise
                   (map (\<lambda>j. hashtable_keys hashtable ! j) [0..<containers]) [] 0 log of
              (Inl e, log') \<Rightarrow> (Inl e, log')
            | (Inr (stream, tot), log') \<Rightarrow>
                (let tot_memory_str =
                   (case shift of
                      k_shift \<Rightarrow> printf_u (unat (tot div 1000)) @ ''kB''
                    | m_shift \<Rightarrow> printf_g tot 1000000 @ ''MB''
                    | g_shift \<Rightarrow> printf_g tot 1000000000 @ ''GB''
                    | b_shift \<Rightarrow> printf_u (unat tot) @ ''B'')
                 in (Inr \<lparr>tot_memory = tot,
                           status = tot_memory_str @ '' of memory used by ''
                             @ printf_u containers @ '' running containers'',
                           perfdata = stream\<rparr>, log')))))"

section \<open>Documents and connections used as concrete inputs\<close>

text \<open>
  Each document comes with the tokens jsmn produces for it: objects and arrays span
  their brackets, strings the text between their quotes.  The first one is the
  statistics document of the comment above \<^verbatim>\<open>json_parser_stats\<close>, written on one
  line.
\<close>

definition stats_json :: string where
  \<open>stats_json = ''{"container": {"block_input": 16601088, "block_output": 16384, "cpu": 1.0191267811342149e-07, "cpu_nano": 1616621000, "id": "e15712d1db8f92b3a00be9649345856da53ab22abcc8b22e286c5cd8fbf08c36", "mem_limit": 8232525824, "mem_perc": 0.10095059739468847, "mem_usage": 8310784, "name": "srv-redis-1", "net_input": 1048, "net_output": 7074, "pids": 4, "system_nano": 1586280558931850500}}''\<close>

definition stats_tokens :: "jsmntok list" where
  "stats_tokens =
    [tok JSMN_OBJECT 0 381,
     tok JSMN_STRING 2 11,
     tok JSMN_OBJECT 14 380,
     tok JSMN_STRING 16 27,
     tok JSMN_PRIMITIVE 30 38,
     tok JSMN_STRING 41 53,
     tok JSMN_PRIMITIVE 56 61,
     tok JSMN_STRING 64 67,
     tok JSMN_PRIMITIVE 70 92,
     tok JSMN_STRING 95 103,
     tok JSMN_PRIMITIVE 106 116,
     tok JSMN_STRING 119 121,
     tok JSMN_STRING 125 189,
     tok JSMN_STRING 193 202,
     tok JSMN_PRIMITIVE 205 215,
     tok JSMN_STRING 218 226,
     tok JSMN_PRIMITIVE 229 248,
     tok JSMN_STRING 251 260,
     tok JSMN_PRIMITIVE 263 270,
     tok JSMN_STRING 273 277,
     tok JSMN_STRING 281 292,
     tok JSMN_STRING 296 305,
     tok JSMN_PRIMITIVE 308 312,
     tok JSMN_STRING 315 325,
     tok JSMN_PRIMITIVE 328 332,
     tok JSMN_STRING 335 339,
     tok JSMN_PRIMITIVE 342 343,
     tok JSMN_STRING 346 357,
     tok JSMN_PRIMITIVE 360 379]"

definition web_stats_json :: string where
  \<open>web_stats_json = ''{"container": {"id": "3b395e067a3071ba77b2b44999235589a0957c72e99d1186ff1e53a0069da727", "mem_limit": 4000000000, "mem_usage": 1500999, "name": "srv-web-2"}}''\<close>

definition web_stats_tokens :: "jsmntok list" where
  "web_stats_tokens =
    [tok JSMN_OBJECT 0 157,
     tok JSMN_STRING 2 11,
     tok JSMN_OBJECT 14 156,
     tok JSMN_STRING 16 18,
     tok JSMN_STRING 22 86,
     tok JSMN_STRING 90 99,
     tok JSMN_PRIMITIVE 102 112,
     tok JSMN_STRING 115 124,
     tok JSMN_PRIMITIVE 127 134,
     tok JSMN_STRING 137 141,
     tok JSMN_STRING 145 154]"

text \<open>
  A list of three containers, the third one stopped, in the format of the comment
  above \<^verbatim>\<open>json_parser_list\<close>.
\<close>

definition list_json :: string where
  \<open>list_json = ''{"containers": [{"command": ["redis-server"], "containerrunning": true, "id": "e15712d1db8f92b3a00be9649345856da53ab22abcc8b22e286c5cd8fbf08c36", "image": "docker.io/library/redis:latest", "names": "srv-redis-1", "status": "running"}, {"command": ["nginx"], "containerrunning": true, "id": "3b395e067a3071ba77b2b44999235589a0957c72e99d1186ff1e53a0069da727", "image": "docker.io/library/nginx:latest", "names": "srv-web-2", "status": "running"}, {"command": ["redis-server"], "containerrunning": false, "id": "0c4d2a9e51b7f3a86d09c2e4b1a7f5d3e8c6b4a2907f1e3d5c7b9a1f2e4d6c8b", "image": "docker.io/library/redis:latest", "names": "srv-old", "status": "exited"}]}''\<close>

definition list_tokens :: "jsmntok list" where
  "list_tokens =
    [tok JSMN_OBJECT 0 660,
     tok JSMN_STRING 2 12,
     tok JSMN_ARRAY 15 659,
     tok JSMN_OBJECT 16 233,
     tok JSMN_STRING 18 25,
     tok JSMN_ARRAY 28 44,
     tok JSMN_STRING 30 42,
     tok JSMN_STRING 47 63,
     tok JSMN_PRIMITIVE 66 70,
     tok JSMN_STRING 73 75,
     tok JSMN_STRING 79 143,
     tok JSMN_STRING 147 152,
     tok JSMN_STRING 156 186,
     tok JSMN_STRING 190 195,
     tok JSMN_STRING 199 210,
     tok JSMN_STRING 214 220,
     tok JSMN_STRING 224 231,
     tok JSMN_OBJECT 235 443,
     tok JSMN_STRING 237 244,
     tok JSMN_ARRAY 247 256,
     tok JSMN_STRING 249 254,
     tok JSMN_STRING 259 275,
     tok JSMN_PRIMITIVE 278 282,
     tok JSMN_STRING 285 287,
     tok JSMN_STRING 291 355,
     tok JSMN_STRING 359 364,
     tok JSMN_STRING 368 398,
     tok JSMN_STRING 402 407,
     tok JSMN_STRING 411 420,
     tok JSMN_STRING 424 430,
     tok JSMN_STRING 434 441,
     tok JSMN_OBJECT 445 658,
     tok JSMN_STRING 447 454,
     tok JSMN_ARRAY 457 473,
     tok JSMN_STRING 459 471,
     tok JSMN_STRING 476 492,
     tok JSMN_PRIMITIVE 495 500,
     tok JSMN_STRING 503 505,
     tok JSMN_STRING 509 573,
     tok JSMN_STRING 577 582,
     tok JSMN_STRING 586 616,
     tok JSMN_STRING 620 625,
     tok JSMN_STRING 629 636,
     tok JSMN_STRING 640 646,
     tok JSMN_STRING 650 656]"

text \<open>
  A connection that serves the list and the statistics of its two running
  containers, and the tokenizer's results on these three texts.
\<close>

definition example_pv :: varlink where
  \<open>example_pv varlinkmethod param =
     (if varlinkmethod = ''io.podman.ListContainers'' then Inr list_json
      else if param = Some ''{"name":"e15712d1"}'' then Inr stats_json
      else if param = Some ''{"name":"3b395e06"}'' then Inr web_stats_json
      else Inl ''no such container'')\<close>

definition example_tokenise :: "string \<Rightarrow> jsmntok list option" where
  "example_tokenise json =
     (if json = list_json then Some list_tokens
      else if json = stats_json then Some stats_tokens
      else if json = web_stats_json then Some web_stats_tokens
      else None)"

text \<open>
  A connection that answers every call with one text, the tokenizer's result on one
  text, and a \<^verbatim>\<open>%g\<close> conversion for the runs that do not reach it.
\<close>

definition pv_always :: "string \<Rightarrow> varlink" where
  "pv_always json varlinkmethod param = Inr json"

definition tokenise_as :: "string \<Rightarrow> jsmntok list \<Rightarrow> string \<Rightarrow> jsmntok list option" where
  "tokenise_as json tokens text = (if text = json then Some tokens else None)"

definition printf_g_unused :: "64 word \<Rightarrow> nat \<Rightarrow> string" where
  "printf_g_unused tot divisor = []"

text \<open>Two sibling objects at the top level, and the second of them alone.\<close>

definition sibling_list_json :: string where
  \<open>sibling_list_json = ''{"containers": []} {"bogus": 1}''\<close>

definition sibling_list_tokens :: "jsmntok list" where
  "sibling_list_tokens =
    [tok JSMN_OBJECT 0 18,
     tok JSMN_STRING 2 12,
     tok JSMN_ARRAY 15 17,
     tok JSMN_OBJECT 19 31,
     tok JSMN_STRING 21 26,
     tok JSMN_PRIMITIVE 29 30]"

definition sibling_stats_json :: string where
  \<open>sibling_stats_json = ''{"container": {"name": "a"}} {"bogus": 1}''\<close>

definition sibling_stats_tokens :: "jsmntok list" where
  "sibling_stats_tokens =
    [tok JSMN_OBJECT 0 28,
     tok JSMN_STRING 2 11,
     tok JSMN_OBJECT 14 27,
     tok JSMN_STRING 16 20,
     tok JSMN_STRING 24 25,
     tok JSMN_OBJECT 29 41,
     tok JSMN_STRING 31 36,
     tok JSMN_PRIMITIVE 39 40]"

definition bogus_json :: string where
  \<open>bogus_json = ''{"bogus": 1}''\<close>

definition bogus_tokens :: "jsmntok list" where
  "bogus_tokens =
    [tok JSMN_OBJECT 0 12,
     tok JSMN_STRING 2 7,
     tok JSMN_PRIMITIVE 10 11]"

text \<open>Documents without the root key, and a statistics document with a name only.\<close>

definition empty_object_json :: string where
  \<open>empty_object_json = ''{}''\<close>

definition empty_object_tokens :: "jsmntok list" where
  "empty_object_tokens =
    [tok JSMN_OBJECT 0 2]"

definition pods_json :: string where
  \<open>pods_json = ''{"pods": []}''\<close>

definition pods_tokens :: "jsmntok list" where
  "pods_tokens =
    [tok JSMN_OBJECT 0 12,
     tok JSMN_STRING 2 6,
     tok JSMN_ARRAY 9 11]"

definition name_only_json :: string where
  \<open>name_only_json = ''{"container": {"name": "srv-redis-1"}}''\<close>

definition name_only_tokens :: "jsmntok list" where
  "name_only_tokens =
    [tok JSMN_OBJECT 0 38,
     tok JSMN_STRING 2 11,
     tok JSMN_OBJECT 14 37,
     tok JSMN_STRING 16 20,
     tok JSMN_STRING 24 35]"

text \<open>Documents in which a key occurs twice.\<close>

definition twice_stats_json :: string where
  \<open>twice_stats_json = ''{"container": {"mem_limit": 10, "mem_limit": 20, "mem_usage": 1, "mem_usage": 2, "name": "first", "name": "second"}}''\<close>

definition twice_stats_tokens :: "jsmntok list" where
  "twice_stats_tokens =
    [tok JSMN_OBJECT 0 116,
     tok JSMN_STRING 2 11,
     tok JSMN_OBJECT 14 115,
     tok JSMN_STRING 16 25,
     tok JSMN_PRIMITIVE 28 30,
     tok JSMN_STRING 33 42,
     tok JSMN_PRIMITIVE 45 47,
     tok JSMN_STRING 50 59,
     tok JSMN_PRIMITIVE 62 63,
     tok JSMN_STRING 66 75,
     tok JSMN_PRIMITIVE 78 79,
     tok JSMN_STRING 82 86,
     tok JSMN_STRING 90 95,
     tok JSMN_STRING 99 103,
     tok JSMN_STRING 107 113]"

definition twice_list_json :: string where
  \<open>twice_list_json = ''{"containers": [{"containerrunning": true, "id": "aaaaaaaa1111", "id": "bbbbbbbb2222", "image": "redis"}]}''\<close>

definition twice_list_tokens :: "jsmntok list" where
  "twice_list_tokens =
    [tok JSMN_OBJECT 0 106,
     tok JSMN_STRING 2 12,
     tok JSMN_ARRAY 15 105,
     tok JSMN_OBJECT 16 104,
     tok JSMN_STRING 18 34,
     tok JSMN_PRIMITIVE 37 41,
     tok JSMN_STRING 44 46,
     tok JSMN_STRING 50 62,
     tok JSMN_STRING 66 68,
     tok JSMN_STRING 72 84,
     tok JSMN_STRING 88 93,
     tok JSMN_STRING 97 102]"

text \<open>Documents in which the value of a key is the name of another key.\<close>

definition value_is_key_json :: string where
  \<open>value_is_key_json = ''{"container": {"name": "mem_usage", "mem_limit": 7}}''\<close>

definition value_is_key_tokens :: "jsmntok list" where
  "value_is_key_tokens =
    [tok JSMN_OBJECT 0 52,
     tok JSMN_STRING 2 11,
     tok JSMN_OBJECT 14 51,
     tok JSMN_STRING 16 20,
     tok JSMN_STRING 24 33,
     tok JSMN_STRING 37 46,
     tok JSMN_PRIMITIVE 49 50]"

definition value_is_key_list_json :: string where
  \<open>value_is_key_list_json = ''{"containers": [{"containerrunning": true, "id": "0123456789ab", "image": "id"}]}''\<close>

definition value_is_key_list_tokens :: "jsmntok list" where
  "value_is_key_list_tokens =
    [tok JSMN_OBJECT 0 81,
     tok JSMN_STRING 2 12,
     tok JSMN_ARRAY 15 80,
     tok JSMN_OBJECT 16 79,
     tok JSMN_STRING 18 34,
     tok JSMN_PRIMITIVE 37 41,
     tok JSMN_STRING 44 46,
     tok JSMN_STRING 50 62,
     tok JSMN_STRING 66 71,
     tok JSMN_STRING 75 77]"

text \<open>A document whose root element is an array.\<close>

definition array_root_json :: string where
  \<open>array_root_json = ''[{"containers": []}]''\<close>

definition array_root_tokens :: "jsmntok list" where
  "array_root_tokens =
    [tok JSMN_ARRAY 0 20,
     tok JSMN_OBJECT 1 19,
     tok JSMN_STRING 3 13,
     tok JSMN_ARRAY 16 18]"

text \<open>
  Documents in which the slots are not filled by the members of one object: a
  running flag that stays in its slot across two containers, and strings that equal
  the name of a key without being the key of a member.
\<close>

definition carry_json :: string where
  \<open>carry_json = ''{"containers": [{"containerrunning": true}, {"id": "bbbbbbbb0000", "image": "i", "containerrunning": false}]}''\<close>

definition carry_tokens :: "jsmntok list" where
  "carry_tokens =
    [tok JSMN_OBJECT 0 109,
     tok JSMN_STRING 2 12,
     tok JSMN_ARRAY 15 108,
     tok JSMN_OBJECT 16 42,
     tok JSMN_STRING 18 34,
     tok JSMN_PRIMITIVE 37 41,
     tok JSMN_OBJECT 44 107,
     tok JSMN_STRING 46 48,
     tok JSMN_STRING 52 64,
     tok JSMN_STRING 68 73,
     tok JSMN_STRING 77 78,
     tok JSMN_STRING 82 98,
     tok JSMN_PRIMITIVE 101 106]"

definition labels_json :: string where
  \<open>labels_json = ''{"container": {"labels": ["mem_usage", 7], "name": "x"}}''\<close>

definition labels_tokens :: "jsmntok list" where
  "labels_tokens =
    [tok JSMN_OBJECT 0 56,
     tok JSMN_STRING 2 11,
     tok JSMN_OBJECT 14 55,
     tok JSMN_STRING 16 22,
     tok JSMN_ARRAY 25 41,
     tok JSMN_STRING 27 36,
     tok JSMN_PRIMITIVE 39 40,
     tok JSMN_STRING 44 48,
     tok JSMN_STRING 52 53]"

definition status_value_json :: string where
  \<open>status_value_json = ''{"container": {"status": "mem_limit", "name": "x"}}''\<close>

definition status_value_tokens :: "jsmntok list" where
  "status_value_tokens =
    [tok JSMN_OBJECT 0 51,
     tok JSMN_STRING 2 11,
     tok JSMN_OBJECT 14 50,
     tok JSMN_STRING 16 22,
     tok JSMN_STRING 26 35,
     tok JSMN_STRING 39 43,
     tok JSMN_STRING 47 48]"

definition stray_value_json :: string where
  \<open>stray_value_json = ''{"container": {"id": "name", "pids": 4}}''\<close>

definition stray_value_tokens :: "jsmntok list" where
  "stray_value_tokens =
    [tok JSMN_OBJECT 0 40,
     tok JSMN_STRING 2 11,
     tok JSMN_OBJECT 14 39,
     tok JSMN_STRING 16 18,
     tok JSMN_STRING 22 26,
     tok JSMN_STRING 30 34,
     tok JSMN_PRIMITIVE 37 38]"

definition stray_value_list_json :: string where
  \<open>stray_value_list_json = ''{"containers": [{"containerrunning": true, "image": "i", "names": "id", "runningfor": "52s"}]}''\<close>

definition stray_value_list_tokens :: "jsmntok list" where
  "stray_value_list_tokens =
    [tok JSMN_OBJECT 0 94,
     tok JSMN_STRING 2 12,
     tok JSMN_ARRAY 15 93,
     tok JSMN_OBJECT 16 92,
     tok JSMN_STRING 18 34,
     tok JSMN_PRIMITIVE 37 41,
     tok JSMN_STRING 44 49,
     tok JSMN_STRING 53 54,
     tok JSMN_STRING 58 63,
     tok JSMN_STRING 67 69,
     tok JSMN_STRING 73 83,
     tok JSMN_STRING 87 90]"

definition root_value_json :: string where
  \<open>root_value_json = ''{"containers": "id"}''\<close>

definition root_value_tokens :: "jsmntok list" where
  "root_value_tokens =
    [tok JSMN_OBJECT 0 20,
     tok JSMN_STRING 2 12,
     tok JSMN_STRING 16 18]"

section \<open>Evaluation of the scans on the concrete documents\<close>

lemmas scan_defs =
  stats_switch_def stats_update_def json_token_streq_def json_token_tostr_def
  strtol_or_err_def is_digit_def digit_val_def stats_keys_def stats_root_key_def
  list_switch_def list_flush_def list_keys_def list_root_key_def
  podman_array_is_full_def podman_shortid_def shortid_chars_def counter_put_def
  counter_create_def hashtable_keys_def

lemmas call_defs =
  json_parser_stats_def json_parser_list_def podman_varlink_get_def pv_always_def
  tokenise_as_def

text \<open>The texts of the string and primitive tokens of each document, in order.\<close>

lemma stats_texts:
  "map (json_token_tostr stats_json)
     (filter (\<lambda>t. tok_type t = JSMN_STRING \<or> tok_type t = JSMN_PRIMITIVE) stats_tokens) =
     [''container'', ''block_input'', ''16601088'', ''block_output'', ''16384'', ''cpu'',
      ''1.0191267811342149e-07'', ''cpu_nano'', ''1616621000'', ''id'',
      ''e15712d1db8f92b3a00be9649345856da53ab22abcc8b22e286c5cd8fbf08c36'', ''mem_limit'',
      ''8232525824'', ''mem_perc'', ''0.10095059739468847'', ''mem_usage'', ''8310784'',
      ''name'', ''srv-redis-1'', ''net_input'', ''1048'', ''net_output'', ''7074'',
      ''pids'', ''4'', ''system_nano'', ''1586280558931850500'']"
  by (simp add: json_token_tostr_def stats_json_def stats_tokens_def)

lemma web_stats_texts:
  "map (json_token_tostr web_stats_json)
     (filter (\<lambda>t. tok_type t = JSMN_STRING \<or> tok_type t = JSMN_PRIMITIVE) web_stats_tokens) =
     [''container'', ''id'',
      ''3b395e067a3071ba77b2b44999235589a0957c72e99d1186ff1e53a0069da727'', ''mem_limit'',
      ''4000000000'', ''mem_usage'', ''1500999'', ''name'', ''srv-web-2'']"
  by (simp add: json_token_tostr_def web_stats_json_def web_stats_tokens_def)

lemma list_texts:
  "map (json_token_tostr list_json)
     (filter (\<lambda>t. tok_type t = JSMN_STRING \<or> tok_type t = JSMN_PRIMITIVE) list_tokens) =
     [''containers'', ''command'', ''redis-server'', ''containerrunning'', ''true'',
      ''id'', ''e15712d1db8f92b3a00be9649345856da53ab22abcc8b22e286c5cd8fbf08c36'',
      ''image'', ''docker.io/library/redis:latest'', ''names'', ''srv-redis-1'',
      ''status'', ''running'', ''command'', ''nginx'', ''containerrunning'', ''true'',
      ''id'', ''3b395e067a3071ba77b2b44999235589a0957c72e99d1186ff1e53a0069da727'',
      ''image'', ''docker.io/library/nginx:latest'', ''names'', ''srv-web-2'', ''status'',
      ''running'', ''command'', ''redis-server'', ''containerrunning'', ''false'', ''id'',
      ''0c4d2a9e51b7f3a86d09c2e4b1a7f5d3e8c6b4a2907f1e3d5c7b9a1f2e4d6c8b'', ''image'',
      ''docker.io/library/redis:latest'', ''names'', ''srv-old'', ''status'', ''exited'']"
  by (simp add: json_token_tostr_def list_json_def list_tokens_def)

lemma sibling_list_texts:
  "map (json_token_tostr sibling_list_json)
     (filter (\<lambda>t. tok_type t = JSMN_STRING \<or> tok_type t = JSMN_PRIMITIVE) sibling_list_tokens) =
     [''containers'', ''bogus'', ''1'']"
  by (simp add: json_token_tostr_def sibling_list_json_def sibling_list_tokens_def)

lemma sibling_stats_texts:
  "map (json_token_tostr sibling_stats_json)
     (filter (\<lambda>t. tok_type t = JSMN_STRING \<or> tok_type t = JSMN_PRIMITIVE) sibling_stats_tokens) =
     [''container'', ''name'', ''a'', ''bogus'', ''1'']"
  by (simp add: json_token_tostr_def sibling_stats_json_def sibling_stats_tokens_def)

lemma bogus_texts:
  "map (json_token_tostr bogus_json)
     (filter (\<lambda>t. tok_type t = JSMN_STRING \<or> tok_type t = JSMN_PRIMITIVE) bogus_tokens) =
     [''bogus'', ''1'']"
  by (simp add: json_token_tostr_def bogus_json_def bogus_tokens_def)

lemma empty_object_texts:
  "map (json_token_tostr empty_object_json)
     (filter (\<lambda>t. tok_type t = JSMN_STRING \<or> tok_type t = JSMN_PRIMITIVE) empty_object_tokens) =
     []"
  by (simp add: json_token_tostr_def empty_object_json_def empty_object_tokens_def)

lemma pods_texts:
  "map (json_token_tostr pods_json)
     (filter (\<lambda>t. tok_type t = JSMN_STRING \<or> tok_type t = JSMN_PRIMITIVE) pods_tokens) =
     [''pods'']"
  by (simp add: json_token_tostr_def pods_json_def pods_tokens_def)

lemma name_only_texts:
  "map (json_token_tostr name_only_json)
     (filter (\<lambda>t. tok_type t = JSMN_STRING \<or> tok_type t = JSMN_PRIMITIVE) name_only_tokens) =
     [''container'', ''name'', ''srv-redis-1'']"
  by (simp add: json_token_tostr_def name_only_json_def name_only_tokens_def)

lemma twice_stats_texts:
  "map (json_token_tostr twice_stats_json)
     (filter (\<lambda>t. tok_type t = JSMN_STRING \<or> tok_type t = JSMN_PRIMITIVE) twice_stats_tokens) =
     [''container'', ''mem_limit'', ''10'', ''mem_limit'', ''20'', ''mem_usage'', ''1'',
      ''mem_usage'', ''2'', ''name'', ''first'', ''name'', ''second'']"
  by (simp add: json_token_tostr_def twice_stats_json_def twice_stats_tokens_def)

lemma twice_list_texts:
  "map (json_token_tostr twice_list_json)
     (filter (\<lambda>t. tok_type t = JSMN_STRING \<or> tok_type t = JSMN_PRIMITIVE) twice_list_tokens) =
     [''containers'', ''containerrunning'', ''true'', ''id'', ''aaaaaaaa1111'', ''id'',
      ''bbbbbbbb2222'', ''image'', ''redis'']"
  by (simp add: json_token_tostr_def twice_list_json_def twice_list_tokens_def)

lemma value_is_key_texts:
  "map (json_token_tostr value_is_key_json)
     (filter (\<lambda>t. tok_type t = JSMN_STRING \<or> tok_type t = JSMN_PRIMITIVE) value_is_key_tokens) =
     [''container'', ''name'', ''mem_usage'', ''mem_limit'', ''7'']"
  by (simp add: json_token_tostr_def value_is_key_json_def value_is_key_tokens_def)

lemma value_is_key_list_texts:
  "map (json_token_tostr value_is_key_list_json)
     (filter (\<lambda>t. tok_type t = JSMN_STRING \<or> tok_type t = JSMN_PRIMITIVE) value_is_key_list_tokens) =
     [''containers'', ''containerrunning'', ''true'', ''id'', ''0123456789ab'', ''image'',
      ''id'']"
  by (simp add: json_token_tostr_def value_is_key_list_json_def value_is_key_list_tokens_def)

lemma array_root_texts:
  "map (json_token_tostr array_root_json)
     (filter (\<lambda>t. tok_type t = JSMN_STRING \<or> tok_type t = JSMN_PRIMITIVE) array_root_tokens) =
     [''containers'']"
  by (simp add: json_token_tostr_def array_root_json_def array_root_tokens_def)

lemma carry_texts:
  "map (json_token_tostr carry_json)
     (filter (\<lambda>t. tok_type t = JSMN_STRING \<or> tok_type t = JSMN_PRIMITIVE) carry_tokens) =
     [''containers'', ''containerrunning'', ''true'', ''id'', ''bbbbbbbb0000'', ''image'', ''i'', ''containerrunning'', ''false'']"
  by (simp add: json_token_tostr_def carry_json_def carry_tokens_def)

lemma labels_texts:
  "map (json_token_tostr labels_json)
     (filter (\<lambda>t. tok_type t = JSMN_STRING \<or> tok_type t = JSMN_PRIMITIVE) labels_tokens) =
     [''container'', ''labels'', ''mem_usage'', ''7'', ''name'', ''x'']"
  by (simp add: json_token_tostr_def labels_json_def labels_tokens_def)

lemma status_value_texts:
  "map (json_token_tostr status_value_json)
     (filter (\<lambda>t. tok_type t = JSMN_STRING \<or> tok_type t = JSMN_PRIMITIVE) status_value_tokens) =
     [''container'', ''status'', ''mem_limit'', ''name'', ''x'']"
  by (simp add: json_token_tostr_def status_value_json_def status_value_tokens_def)

lemma stray_value_texts:
  "map (json_token_tostr stray_value_json)
     (filter (\<lambda>t. tok_type t = JSMN_STRING \<or> tok_type t = JSMN_PRIMITIVE) stray_value_tokens) =
     [''container'', ''id'', ''name'', ''pids'', ''4'']"
  by (simp add: json_token_tostr_def stray_value_json_def stray_value_tokens_def)

lemma stray_value_list_texts:
  "map (json_token_tostr stray_value_list_json)
     (filter (\<lambda>t. tok_type t = JSMN_STRING \<or> tok_type t = JSMN_PRIMITIVE) stray_value_list_tokens) =
     [''containers'', ''containerrunning'', ''true'', ''image'', ''i'', ''names'', ''id'', ''runningfor'', ''52s'']"
  by (simp add: json_token_tostr_def stray_value_list_json_def stray_value_list_tokens_def)

lemma root_value_texts:
  "map (json_token_tostr root_value_json)
     (filter (\<lambda>t. tok_type t = JSMN_STRING \<or> tok_type t = JSMN_PRIMITIVE) root_value_tokens) =
     [''containers'', ''id'']"
  by (simp add: json_token_tostr_def root_value_json_def root_value_tokens_def)

text \<open>The scans of the example documents.\<close>

lemma stats_loop_stats_json:
  "stats_loop stats_json stats_tokens 0 [None, None, None]
     \<lparr>mem_limit = 0, mem_usage = 0, name = None\<rparr> =
   Inr \<lparr>mem_limit = 8232525824, mem_usage = 8310784, name = Some ''srv-redis-1''\<rparr>"
  by (simp add: stats_tokens_def stats_json_def scan_defs)

lemma stats_loop_web_stats_json:
  "stats_loop web_stats_json web_stats_tokens 0 [None, None, None]
     \<lparr>mem_limit = 0, mem_usage = 0, name = None\<rparr> =
   Inr \<lparr>mem_limit = 4000000000, mem_usage = 1500999, name = Some ''srv-web-2''\<rparr>"
  by (simp add: web_stats_tokens_def web_stats_json_def scan_defs)

lemma list_loop_list_json:
  "list_loop list_json None list_tokens 0 [None, None, None] counter_create =
   Inr [(''e15712d1'', 1), (''3b395e06'', 1)]"
  by (simp add: list_tokens_def list_json_def scan_defs)

lemma example_tokenise_simps:
  "example_tokenise list_json = Some list_tokens"
  "example_tokenise stats_json = Some stats_tokens"
  "example_tokenise web_stats_json = Some web_stats_tokens"
  by (simp_all add: example_tokenise_def list_json_def stats_json_def web_stats_json_def)

lemma podman_stats_example:
  \<open>podman_stats example_pv example_tokenise printf_g shift None =
     (Inr \<lparr>tot_memory = 9811783,
            status =
              (case shift of
                 b_shift \<Rightarrow> ''9811783B''
               | k_shift \<Rightarrow> ''9811kB''
               | m_shift \<Rightarrow> printf_g 9811783 1000000 @ ''MB''
               | g_shift \<Rightarrow> printf_g 9811783 1000000000 @ ''GB'')
              @ '' of memory used by 2 running containers'',
            perfdata = ''srv-redis-1=8310kB;;;0;8232525 srv-web-2=1500kB;;;0;4000000 ''\<rparr>,
      [(''io.podman.ListContainers'', None),
       (''io.podman.GetContainerStats'', Some ''{"name":"e15712d1"}''),
       (''io.podman.GetContainerStats'', Some ''{"name":"3b395e06"}'')])\<close>
  by (cases shift)
    (simp_all add: podman_stats_def json_parser_list_def json_parser_stats_def
      podman_varlink_get_def example_pv_def example_tokenise_simps list_loop_list_json
      stats_loop_stats_json stats_loop_web_stats_json counter_get_unique_elements_def
      hashtable_keys_def upt_conv_Cons printf_u.simps)

section \<open>Properties of the scans\<close>

subsection \<open>The level only grows\<close>

lemma stats_switch_level:
  assumes "stats_switch json t rest level vals = Inr (k, level', vals')"
  shows "level \<le> level'"
  using assms
  by (auto simp add: stats_switch_def split: jsmntype.splits if_splits sum.splits)

lemma list_switch_level:
  assumes "list_switch json t rest level vals = Inr (k, level', vals')"
  shows "level \<le> level'"
  using assms
  by (auto simp add: list_switch_def split: jsmntype.splits if_splits sum.splits)

subsection \<open>Slots and keys of the single-item scan\<close>

lemma stats_switch_keeps_slot:
  assumes "stats_switch json t rest level vals = Inr (k, level', vals')"
    and "j < 3" and "json_token_tostr json t \<noteq> stats_keys ! j"
  shows "vals' ! j = vals ! j"
proof -
  from \<open>j < 3\<close> have "j = 0 \<or> j = 1 \<or> j = 2" by auto
  with assms(1,3) show ?thesis
    by (auto simp add: stats_switch_def stats_keys_def json_token_streq_def
        split: jsmntype.splits if_splits list.splits)
qed

lemma stats_switch_errors:
  assumes "stats_switch json t rest level vals = Inl e"
  shows "e \<noteq> plugin_error ''failed to parse mem_limit counter''
       \<and> e \<noteq> plugin_error ''failed to parse mem_usage counter''"
  using assms
  by (auto simp add: stats_switch_def stats_keys_def
      split: jsmntype.splits if_splits list.splits)

text \<open>
  A slot whose key does not occur among the tokens keeps its contents through the
  scan, and with it every property of the record that the final conversions keep.
\<close>

lemma stats_loop_untouched_slot:
  assumes "\<forall>t \<in> set tokens. json_token_tostr json t \<noteq> stats_keys ! j" and "j < 3"
    and "vals ! j = s" and "Q stats"
    and step: "\<And>vals stats. vals ! j = s \<Longrightarrow> Q stats \<Longrightarrow>
           (case stats_update vals stats of Inr stats' \<Rightarrow> Q stats' | Inl e \<Rightarrow> E e)"
    and sw: "\<And>json t rest level vals e. stats_switch json t rest level vals = Inl e \<Longrightarrow> E e"
    and "E assert_failure"
  shows "case stats_loop json tokens level vals stats of
           Inr stats' \<Rightarrow> Q stats' | Inl e \<Rightarrow> E e"
  using assms(1,3,4)
proof (induction json tokens level vals stats rule: stats_loop.induct)
  case (1 json level vals stats)
  then show ?case by simp
next
  case (2 json t rest level vals stats)
  show ?case
  proof (cases "tok_start t \<noteq> - 1 \<and> tok_end t \<noteq> - 1")
    case False
    with \<open>E assert_failure\<close> show ?thesis by auto
  next
    case resolved: True
    show ?thesis
    proof (cases "stats_switch json t rest level vals")
      case (Inl e)
      with resolved sw [OF Inl] show ?thesis by simp
    next
      case (Inr r)
      obtain k level' vals' where r: "r = (k, level', vals')"
        by (cases r) auto
      from "2.prems" have "json_token_tostr json t \<noteq> stats_keys ! j"
        by simp
      with Inr r "2.prems" \<open>j < 3\<close> have slot: "vals' ! j = s"
        using stats_switch_keeps_slot [of json t rest level vals k level' vals' j] by simp
      show ?thesis
      proof (cases "stats_update vals' stats")
        case (Inl e)
        with resolved Inr r step [OF slot \<open>Q stats\<close>]
        show ?thesis by simp
      next
        case upd: (Inr stats1)
        from "2.prems" have rest: "\<forall>u \<in> set (drop k rest). json_token_tostr json u \<noteq> stats_keys ! j"
          by (auto dest: in_set_dropD)
        from step [OF slot \<open>Q stats\<close>] upd have "Q stats1" by simp
        with "2.IH" [OF _ Inr r [symmetric] refl upd rest slot] resolved
        have "case stats_loop json (drop k rest) level' vals' stats1 of
                Inr stats' \<Rightarrow> Q stats' | Inl e \<Rightarrow> E e"
          by simp
        then show ?thesis
          using resolved Inr r upd by simp
      qed
    qed
  qed
qed

lemma stats_update_without_mem_limit:
  assumes "vals ! 0 = None" and "mem_limit stats = 0"
  shows "case stats_update vals stats of
           Inr stats' \<Rightarrow> mem_limit stats' = 0
         | Inl e \<Rightarrow> e \<noteq> plugin_error ''failed to parse mem_limit counter''"
  using assms
  by (auto simp add: stats_update_def strtol_or_err_def Let_def split: option.splits sum.splits)

lemma stats_update_without_mem_usage:
  assumes "vals ! 1 = None" and "mem_usage stats = 0"
  shows "case stats_update vals stats of
           Inr stats' \<Rightarrow> mem_usage stats' = 0
         | Inl e \<Rightarrow> e \<noteq> plugin_error ''failed to parse mem_usage counter''"
  using assms
  by (auto simp add: stats_update_def strtol_or_err_def Let_def split: option.splits sum.splits)

subsection \<open>A scanned key takes the next token\<close>

lemma stats_switch_key:
  assumes "tok_type t = JSMN_STRING" and "level \<noteq> 1" and "j < 3"
    and "json_token_tostr json t = stats_keys ! j"
  shows "stats_switch json t (v # rest) level vals =
           Inr (1, level, vals[j := Some (json_token_tostr json v)])"
proof -
  from \<open>j < 3\<close> have "j = 0 \<or> j = 1 \<or> j = 2" by auto
  with assms(1,2,4) show ?thesis
    by (auto simp add: stats_switch_def stats_keys_def json_token_streq_def stats_root_key_def
        numeral_2_eq_2)
qed

lemma list_switch_key:
  assumes "tok_type t = JSMN_STRING" and "level \<noteq> 1" and "j < 3"
    and "json_token_tostr json t = list_keys ! j"
  shows "list_switch json t (v # rest) level vals =
           Inr (1, level, vals[j := Some (json_token_tostr json v)])"
proof -
  from \<open>j < 3\<close> have "j = 0 \<or> j = 1 \<or> j = 2" by auto
  with assms(1,2,4) show ?thesis
    by (auto simp add: list_switch_def list_keys_def json_token_streq_def list_root_key_def
        numeral_2_eq_2)
qed

lemma stats_switch_key_at_root:
  assumes "tok_type t = JSMN_STRING" and "j < 3"
    and "json_token_tostr json t = stats_keys ! j"
  shows "\<exists>e. stats_switch json t rest 1 vals = Inl e"
proof -
  from \<open>j < 3\<close> have "j = 0 \<or> j = 1 \<or> j = 2" by auto
  with assms(1,3) show ?thesis
    by (auto simp add: stats_switch_def stats_keys_def json_token_streq_def stats_root_key_def)
qed

lemma stats_update_stores:
  assumes "stats_update vals stats = Inr stats'"
  shows "vals ! 0 = Some x \<Longrightarrow>
           strtol_or_err x ''failed to parse mem_limit counter'' = Inr (mem_limit stats')"
    and "vals ! 1 = Some x \<Longrightarrow>
           strtol_or_err x ''failed to parse mem_usage counter'' = Inr (mem_usage stats')"
    and "vals ! 2 = Some x \<Longrightarrow> name stats' = Some x"
  using assms
  by (auto simp add: stats_update_def split: option.splits sum.splits)

lemma stats_loop_last_value:
  assumes "tok_type t = JSMN_STRING" and "tok_start t \<noteq> - 1" and "tok_end t \<noteq> - 1"
    and "length vals = 3" and "j < 3" and "json_token_tostr json t = stats_keys ! j"
    and "\<forall>u \<in> set rest. json_token_tostr json u \<noteq> json_token_tostr json t"
    and "stats_loop json (t # v # rest) level vals stats = Inr stats'"
    and Q: "\<And>vals stats stats'. vals ! j = Some (json_token_tostr json v) \<Longrightarrow>
           stats_update vals stats = Inr stats' \<Longrightarrow> Q stats'"
  shows "Q stats'"
proof -
  let ?vals = "vals[j := Some (json_token_tostr json v)]"
  have "level \<noteq> 1"
  proof
    assume "level = 1"
    with stats_switch_key_at_root [OF assms(1,5,6), of "v # rest" vals] assms(2,3,8)
    show False by auto
  qed
  then have sw: "stats_switch json t (v # rest) level vals = Inr (1, level, ?vals)"
    using assms(1,5,6) by (simp add: stats_switch_key)
  with assms(2,3,8) obtain stats1 where upd: "stats_update ?vals stats = Inr stats1"
    and run: "stats_loop json rest level ?vals stats1 = Inr stats'"
    by (auto split: sum.splits)
  from assms(4,5) have slot: "?vals ! j = Some (json_token_tostr json v)"
    by simp
  have "case stats_loop json rest level ?vals stats1 of
          Inr stats' \<Rightarrow> Q stats' | Inl e \<Rightarrow> True"
  proof (rule stats_loop_untouched_slot [where j = j and s = "Some (json_token_tostr json v)"])
    from assms(6,7) show "\<forall>u \<in> set rest. json_token_tostr json u \<noteq> stats_keys ! j"
      by simp
    from Q [OF slot upd] show "Q stats1" .
    show "case stats_update vals stats of Inr stats' \<Rightarrow> Q stats' | Inl e \<Rightarrow> True"
      if "vals ! j = Some (json_token_tostr json v)" for vals stats
      using Q [OF that] by (simp split: sum.splits)
  qed (use \<open>j < 3\<close> slot in simp_all)
  with run show ?thesis by simp
qed

subsection \<open>The keys of the counter\<close>

lemma counter_put_keys:
  "hashtable_keys (counter_put h key n) =
     (if key \<in> set (hashtable_keys h) then hashtable_keys h else hashtable_keys h @ [key])"
  by (simp add: counter_put_def hashtable_keys_def)

lemma list_flush_distinct:
  assumes "list_flush image_name vals h = Inr (vals', h')" and "distinct (hashtable_keys h)"
  shows "distinct (hashtable_keys h')"
  using assms
  by (auto simp add: list_flush_def counter_put_keys split: if_splits sum.splits)

lemma list_loop_distinct:
  assumes "list_loop json image_name tokens level vals h = Inr h'"
    and "distinct (hashtable_keys h)"
  shows "distinct (hashtable_keys h')"
  using assms
proof (induction json image_name tokens level vals h rule: list_loop.induct)
  case (1 json image_name level vals hashtable)
  then show ?case by simp
next
  case (2 json image_name t rest level vals hashtable)
  from "2.prems"(1) obtain k level' vals' vals'' hashtable' where
    resolved: "tok_start t \<noteq> - 1 \<and> tok_end t \<noteq> - 1"
    and sw: "list_switch json t rest level vals = Inr (k, level', vals')"
    and fl: "list_flush image_name vals' hashtable = Inr (vals'', hashtable')"
    and run: "list_loop json image_name (drop k rest) level' vals'' hashtable' = Inr h'"
    by (auto split: if_splits sum.splits prod.splits)
  from list_flush_distinct [OF fl "2.prems"(2)] have "distinct (hashtable_keys hashtable')" .
  with "2.IH" [OF _ sw refl refl fl refl run] resolved show ?case
    by simp
qed

lemma json_parser_list_distinct:
  assumes "fst (json_parser_list pv json_tokenise image_name log) = Inr h"
  shows "distinct (hashtable_keys h)"
  using assms
  by (auto simp add: json_parser_list_def podman_varlink_get_def counter_create_def
      hashtable_keys_def split: sum.splits option.splits
      dest!: list_loop_distinct [where h = "[]", unfolded hashtable_keys_def, simplified])

subsection \<open>The aggregation loop\<close>

text \<open>
  A call of \<^verbatim>\<open>json_parser_stats\<close> that returns a record has made one call of the
  connection, and its result does not depend on the calls made before.
\<close>

lemma json_parser_stats_log:
  assumes "json_parser_stats pv json_tokenise ident log = (Inr stats, log')"
  shows \<open>log' = log @ [(''io.podman.GetContainerStats'', Some (''{"name":"'' @ ident @ ''"}''))]
       \<and> fst (json_parser_stats pv json_tokenise ident []) = Inr stats\<close>
  using assms
  by (auto simp add: json_parser_stats_def podman_varlink_get_def
      split: if_splits sum.splits option.splits)

lemma podman_stats_loop_result:
  assumes "podman_stats_loop pv json_tokenise ids stream tot log = (Inr (stream', tot'), log')"
  shows \<open>\<exists>items.
           map (\<lambda>k. fst (json_parser_stats pv json_tokenise k [])) ids =
             map (\<lambda>(nm, mu, ml). Inr \<lparr>mem_limit = ml, mem_usage = mu, name = Some nm\<rparr>) items
         \<and> stream' = stream @ concat (map (\<lambda>(nm, mu, ml).
             nm @ ''='' @ printf_u (unat mu div 1000) @ ''kB;;;0;''
               @ printf_u (unat ml div 1000) @ '' '') items)
         \<and> tot' = tot + sum_list (map (\<lambda>(nm, mu, ml). mu) items)
         \<and> log' = log @ map (\<lambda>k. (''io.podman.GetContainerStats'',
             Some (''{"name":"'' @ k @ ''"}''))) ids\<close>
  using assms
proof (induction ids arbitrary: stream tot log)
  case Nil
  then show ?case by simp
next
  case (Cons k ids)
  from Cons.prems obtain stats log1 nm where
    call: "json_parser_stats pv json_tokenise k log = (Inr stats, log1)"
    and nm: "name stats = Some nm"
    and rest: "podman_stats_loop pv json_tokenise ids
        (stream @ nm @ ''='' @ printf_u (unat (mem_usage stats div 1000))
           @ ''kB;;;0;'' @ printf_u (unat (mem_limit stats div 1000)) @ '' '')
        (tot + mem_usage stats) log1 = (Inr (stream', tot'), log')"
    by (auto split: prod.splits sum.splits option.splits)
  from Cons.IH [OF rest] obtain items where items:
    "map (\<lambda>k. fst (json_parser_stats pv json_tokenise k [])) ids =
       map (\<lambda>(nm, mu, ml). Inr \<lparr>mem_limit = ml, mem_usage = mu, name = Some nm\<rparr>) items"
    "stream' = (stream @ nm @ ''='' @ printf_u (unat (mem_usage stats div 1000))
           @ ''kB;;;0;'' @ printf_u (unat (mem_limit stats div 1000)) @ '' '')
       @ concat (map (\<lambda>(nm, mu, ml).
             nm @ ''='' @ printf_u (unat mu div 1000) @ ''kB;;;0;''
               @ printf_u (unat ml div 1000) @ '' '') items)"
    "tot' = (tot + mem_usage stats) + sum_list (map (\<lambda>(nm, mu, ml). mu) items)"
    \<open>log' = log1 @ map (\<lambda>k. (''io.podman.GetContainerStats'',
             Some (''{"name":"'' @ k @ ''"}''))) ids\<close>
    by blast
  from nm have stats: "stats = \<lparr>mem_limit = mem_limit stats, mem_usage = mem_usage stats,
      name = Some nm\<rparr>"
    by (cases stats) simp
  have div: "unat (w div 1000) = unat w div 1000" for w :: "64 word"
    by (simp add: unat_div)
  let ?items = "(nm, mem_usage stats, mem_limit stats) # items"
  from json_parser_stats_log [OF call] items stats
  show ?case
    by (intro exI [of _ ?items]) (simp add: div add.assoc)
qed


lemma podman_stats_result:
  assumes "podman_stats pv json_tokenise printf_g shift image_name = (Inr out, log)"
  shows \<open>\<exists>hashtable items.
           fst (json_parser_list pv json_tokenise image_name []) = Inr hashtable
         \<and> map (\<lambda>k. fst (json_parser_stats pv json_tokenise k [])) (hashtable_keys hashtable) =
             map (\<lambda>(nm, mu, ml). Inr \<lparr>mem_limit = ml, mem_usage = mu, name = Some nm\<rparr>) items
         \<and> perfdata out = concat (map (\<lambda>(nm, mu, ml).
             nm @ ''='' @ printf_u (unat mu div 1000) @ ''kB;;;0;''
               @ printf_u (unat ml div 1000) @ '' '') items)
         \<and> tot_memory out = sum_list (map (\<lambda>(nm, mu, ml). mu) items)
         \<and> log = (''io.podman.ListContainers'', None)
             # map (\<lambda>k. (''io.podman.GetContainerStats'', Some (''{"name":"'' @ k @ ''"}'')))
                 (hashtable_keys hashtable)
         \<and> status out =
             (case shift of
                b_shift \<Rightarrow> printf_u (unat (tot_memory out)) @ ''B''
              | k_shift \<Rightarrow> printf_u (unat (tot_memory out) div 1000) @ ''kB''
              | m_shift \<Rightarrow> printf_g (tot_memory out) 1000000 @ ''MB''
              | g_shift \<Rightarrow> printf_g (tot_memory out) 1000000000 @ ''GB'')
             @ '' of memory used by '' @ printf_u (counter_get_unique_elements hashtable)
             @ '' running containers''\<close>
proof -
  from assms obtain hashtable log0 stream tot where
    list: "json_parser_list pv json_tokenise image_name [] = (Inr hashtable, log0)"
    and loop: "podman_stats_loop pv json_tokenise
        (map (\<lambda>j. hashtable_keys hashtable ! j) [0..<counter_get_unique_elements hashtable])
        [] 0 log0 = (Inr (stream, tot), log)"
    and out: "out = \<lparr>tot_memory = tot,
        status =
          (case shift of
             k_shift \<Rightarrow> printf_u (unat (tot div 1000)) @ ''kB''
           | m_shift \<Rightarrow> printf_g tot 1000000 @ ''MB''
           | g_shift \<Rightarrow> printf_g tot 1000000000 @ ''GB''
           | b_shift \<Rightarrow> printf_u (unat tot) @ ''B'')
          @ '' of memory used by '' @ printf_u (counter_get_unique_elements hashtable)
          @ '' running containers'',
        perfdata = stream\<rparr>"
    by (auto simp add: podman_stats_def Let_def split: prod.splits sum.splits)
  have keys: "map (\<lambda>j. hashtable_keys hashtable ! j)
      [0..<counter_get_unique_elements hashtable] = hashtable_keys hashtable"
    by (simp add: counter_get_unique_elements_def map_nth)
  from list have log0: "log0 = [(''io.podman.ListContainers'', None)]"
    by (auto simp add: json_parser_list_def podman_varlink_get_def
        split: sum.splits option.splits)
  have div: "unat (w div 1000) = unat w div 1000" for w :: "64 word"
    by (simp add: unat_div)
  from podman_stats_loop_result [OF loop [unfolded keys]] obtain items where
    "map (\<lambda>k. fst (json_parser_stats pv json_tokenise k [])) (hashtable_keys hashtable) =
       map (\<lambda>(nm, mu, ml). Inr \<lparr>mem_limit = ml, mem_usage = mu, name = Some nm\<rparr>) items"
    "stream = concat (map (\<lambda>(nm, mu, ml).
             nm @ ''='' @ printf_u (unat mu div 1000) @ ''kB;;;0;''
               @ printf_u (unat ml div 1000) @ '' '') items)"
    "tot = sum_list (map (\<lambda>(nm, mu, ml). mu) items)"
    \<open>log = log0 @ map (\<lambda>k. (''io.podman.GetContainerStats'',
             Some (''{"name":"'' @ k @ ''"}''))) (hashtable_keys hashtable)\<close>
    by auto
  with list log0 out show ?thesis
    by (intro exI [of _ hashtable] exI [of _ items]) (simp add: div split: unit_shift.splits)
qed


lemma unat_sum_list:
  fixes ws :: "64 word list"
  shows "unat (sum_list ws) = sum_list (map unat ws) mod 2 ^ 64"
proof (induction ws)
  case Nil
  show ?case by simp
next
  case (Cons w ws)
  have "unat (w + sum_list ws) = (unat w + unat (sum_list ws)) mod 2 ^ 64"
    by (simp add: unat_word_ariths)
  also have "\<dots> = (unat w + sum_list (map unat ws)) mod 2 ^ 64"
    by (simp add: Cons.IH mod_add_right_eq)
  finally show ?case by simp
qed

section \<open>The claims\<close>

text \<open>
  C1.  The claim: in both scans the depth counter goes down at the end of an object,
  so that of two sibling objects at the top level each one meets the root key check
  at depth 1.  The code only counts up (line 257 carries a note that the counter
  should be decremented at each object end; line 119 stops at 2).  After the first
  object \<^verbatim>\<open>{"containers": []}\<close> the key \<^verbatim>\<open>"bogus"\<close> of the second object is met at
  level 2 and passes, while the second object alone is refused; the same holds for
  the statistics scan.
\<close>

theorem sibling_objects_share_one_depth:
  \<open>fst (json_parser_list (pv_always sibling_list_json)
          (tokenise_as sibling_list_json sibling_list_tokens) None []) = Inr []
   \<and> fst (json_parser_list (pv_always bogus_json)
          (tokenise_as bogus_json bogus_tokens) None []) =
       Inl (plugin_error ''json_parser_list: expected string "containers" not found'')
   \<and> fst (json_parser_stats (pv_always sibling_stats_json)
          (tokenise_as sibling_stats_json sibling_stats_tokens) ''e15712d1'' []) =
       Inr \<lparr>mem_limit = 0, mem_usage = 0, name = Some ''a''\<rparr>
   \<and> fst (json_parser_stats (pv_always bogus_json)
          (tokenise_as bogus_json bogus_tokens) ''e15712d1'' []) =
       Inl (plugin_error ''json_parser_stats: expected string "container" not found'')\<close>
  by (simp add: call_defs scan_defs sibling_list_json_def sibling_list_tokens_def
      sibling_stats_json_def sibling_stats_tokens_def bogus_json_def bogus_tokens_def)

text \<open>
  C2.  The statistics document of the source comment (root key \<^verbatim>\<open>container\<close>,
  \<^verbatim>\<open>mem_limit\<close> 8232525824, \<^verbatim>\<open>mem_usage\<close> 8310784, \<^verbatim>\<open>name\<close> srv-redis-1), fetched
  and scanned by \<^verbatim>\<open>json_parser_stats\<close>, gives the record with these three values and
  no error, after one call of the connection.
\<close>

theorem stats_document_roundtrip:
  \<open>json_parser_stats example_pv example_tokenise ''e15712d1'' [] =
     (Inr \<lparr>mem_limit = 8232525824, mem_usage = 8310784, name = Some ''srv-redis-1''\<rparr>,
      [(''io.podman.GetContainerStats'', Some ''{"name":"e15712d1"}'')])\<close>
  by (simp add: json_parser_stats_def podman_varlink_get_def example_pv_def
      example_tokenise_simps stats_loop_stats_json)




text \<open>
  C4.  In a run of \<^verbatim>\<open>podman_stats\<close> that returns, the memory stream holds, for the
  records of the keys of the counter in their order, the name,
  \<^verbatim>\<open>=\<close>, \<^verbatim>\<open>mem_usage\<close> divided by 1000 without remainder, \<^verbatim>\<open>kB;;;0;\<close>, \<^verbatim>\<open>mem_limit\<close>
  divided by 1000 without remainder and a space, and nothing else.  An item named
  srv-redis-1 with \<^verbatim>\<open>mem_usage\<close> 8310784 and \<^verbatim>\<open>mem_limit\<close> 8232525824 appends
  \<^verbatim>\<open>srv-redis-1=8310kB;;;0;8232525\<close> and a space.
\<close>

theorem perfdata_lines:
  assumes "podman_stats pv json_tokenise printf_g shift image_name = (Inr out, log)"
    and "json_parser_stats pv' json_tokenise' shortid log0 =
           (Inr \<lparr>mem_limit = 8232525824, mem_usage = 8310784, name = Some ''srv-redis-1''\<rparr>,
            log1)"
  shows \<open>(\<exists>hashtable items.
           fst (json_parser_list pv json_tokenise image_name []) = Inr hashtable
         \<and> map (\<lambda>k. fst (json_parser_stats pv json_tokenise k [])) (hashtable_keys hashtable) =
             map (\<lambda>(nm, mu, ml). Inr \<lparr>mem_limit = ml, mem_usage = mu, name = Some nm\<rparr>) items
         \<and> perfdata out = concat (map (\<lambda>(nm, mu, ml).
             nm @ ''='' @ printf_u (unat mu div 1000) @ ''kB;;;0;''
               @ printf_u (unat ml div 1000) @ '' '') items))
       \<and> podman_stats_loop pv' json_tokenise' [shortid] stream tot log0 =
           (Inr (stream @ ''srv-redis-1=8310kB;;;0;8232525 '', tot + 8310784), log1)\<close>
proof
  from podman_stats_result [OF assms(1)]
  show \<open>\<exists>hashtable items.
           fst (json_parser_list pv json_tokenise image_name []) = Inr hashtable
         \<and> map (\<lambda>k. fst (json_parser_stats pv json_tokenise k [])) (hashtable_keys hashtable) =
             map (\<lambda>(nm, mu, ml). Inr \<lparr>mem_limit = ml, mem_usage = mu, name = Some nm\<rparr>) items
         \<and> perfdata out = concat (map (\<lambda>(nm, mu, ml).
             nm @ ''='' @ printf_u (unat mu div 1000) @ ''kB;;;0;''
               @ printf_u (unat ml div 1000) @ '' '') items)\<close>
    by blast
next
  have "printf_u (unat (8310784 div 1000 :: 64 word)) = ''8310''"
    and "printf_u (unat (8232525824 div 1000 :: 64 word)) = ''8232525''"
    by (simp_all add: printf_u.simps)
  with assms(2)
  show "podman_stats_loop pv' json_tokenise' [shortid] stream tot log0 =
      (Inr (stream @ ''srv-redis-1=8310kB;;;0;8232525 '', tot + 8310784), log1)"
    by simp
qed

text \<open>The run over the two running containers of the example, and its first item alone.\<close>

theorem perfdata_lines_witness:
  \<open>fst (podman_stats example_pv example_tokenise printf_g_unused b_shift None) =
     Inr \<lparr>tot_memory = 9811783,
          status = ''9811783B of memory used by 2 running containers'',
          perfdata = ''srv-redis-1=8310kB;;;0;8232525 srv-web-2=1500kB;;;0;4000000 ''\<rparr>
   \<and> podman_stats_loop example_pv example_tokenise [''e15712d1''] [] 0 [] =
       (Inr (''srv-redis-1=8310kB;;;0;8232525 '', 8310784),
        [(''io.podman.GetContainerStats'', Some ''{"name":"e15712d1"}'')])\<close>
proof -
  have run: \<open>podman_stats example_pv example_tokenise printf_g_unused b_shift None =
     (Inr \<lparr>tot_memory = 9811783,
          status = ''9811783B of memory used by 2 running containers'',
          perfdata = ''srv-redis-1=8310kB;;;0;8232525 srv-web-2=1500kB;;;0;4000000 ''\<rparr>,
      [(''io.podman.ListContainers'', None),
       (''io.podman.GetContainerStats'', Some ''{"name":"e15712d1"}''),
       (''io.podman.GetContainerStats'', Some ''{"name":"3b395e06"}'')])\<close>
    by (simp add: podman_stats_example)
  have item: \<open>json_parser_stats example_pv example_tokenise ''e15712d1'' [] =
     (Inr \<lparr>mem_limit = 8232525824, mem_usage = 8310784, name = Some ''srv-redis-1''\<rparr>,
      [(''io.podman.GetContainerStats'', Some ''{"name":"e15712d1"}'')])\<close>
    by (simp add: json_parser_stats_def podman_varlink_get_def example_pv_def
        example_tokenise_simps stats_loop_stats_json)
  from perfdata_lines [OF run item, of "[]" 0, THEN conjunct2] run
  show ?thesis by simp
qed

text \<open>
  C5.  In a run of \<^verbatim>\<open>podman_stats\<close> that returns, the keys of the counter are
  distinct, one statistics call is made for each of them in their order after the
  list call, the total is the sum of the \<^verbatim>\<open>mem_usage\<close> of the records in the 64 bits
  of the \<^verbatim>\<open>unsigned long long\<close>, and the status is the total in the unit of the shift
  (bytes, kB by division without remainder, MB and GB by \<^verbatim>\<open>%g\<close>), followed by
  \<^verbatim>\<open>of memory used by\<close>, the number of keys and \<^verbatim>\<open>running containers\<close>.
\<close>

theorem aggregation_summary:
  assumes "podman_stats pv json_tokenise printf_g shift image_name = (Inr out, log)"
  shows \<open>\<exists>hashtable items.
           fst (json_parser_list pv json_tokenise image_name []) = Inr hashtable
         \<and> distinct (hashtable_keys hashtable)
         \<and> map (\<lambda>k. fst (json_parser_stats pv json_tokenise k [])) (hashtable_keys hashtable) =
             map (\<lambda>(nm, mu, ml). Inr \<lparr>mem_limit = ml, mem_usage = mu, name = Some nm\<rparr>) items
         \<and> tot_memory out = sum_list (map (\<lambda>(nm, mu, ml). mu) items)
         \<and> unat (tot_memory out) = sum_list (map (\<lambda>(nm, mu, ml). unat mu) items) mod 2 ^ 64
         \<and> log = (''io.podman.ListContainers'', None)
             # map (\<lambda>k. (''io.podman.GetContainerStats'', Some (''{"name":"'' @ k @ ''"}'')))
                 (hashtable_keys hashtable)
         \<and> status out =
             (case shift of
                b_shift \<Rightarrow> printf_u (unat (tot_memory out)) @ ''B''
              | k_shift \<Rightarrow> printf_u (unat (tot_memory out) div 1000) @ ''kB''
              | m_shift \<Rightarrow> printf_g (tot_memory out) 1000000 @ ''MB''
              | g_shift \<Rightarrow> printf_g (tot_memory out) 1000000000 @ ''GB'')
             @ '' of memory used by '' @ printf_u (counter_get_unique_elements hashtable)
             @ '' running containers''\<close>
proof -
  from podman_stats_result [OF assms] obtain hashtable items where r:
    "fst (json_parser_list pv json_tokenise image_name []) = Inr hashtable"
    "map (\<lambda>k. fst (json_parser_stats pv json_tokenise k [])) (hashtable_keys hashtable) =
       map (\<lambda>(nm, mu, ml). Inr \<lparr>mem_limit = ml, mem_usage = mu, name = Some nm\<rparr>) items"
    "tot_memory out = sum_list (map (\<lambda>(nm, mu, ml). mu) items)"
    \<open>log = (''io.podman.ListContainers'', None)
       # map (\<lambda>k. (''io.podman.GetContainerStats'', Some (''{"name":"'' @ k @ ''"}'')))
           (hashtable_keys hashtable)\<close>
    "status out =
       (case shift of
          b_shift \<Rightarrow> printf_u (unat (tot_memory out)) @ ''B''
        | k_shift \<Rightarrow> printf_u (unat (tot_memory out) div 1000) @ ''kB''
        | m_shift \<Rightarrow> printf_g (tot_memory out) 1000000 @ ''MB''
        | g_shift \<Rightarrow> printf_g (tot_memory out) 1000000000 @ ''GB'')
       @ '' of memory used by '' @ printf_u (counter_get_unique_elements hashtable)
       @ '' running containers''"
    by blast
  have "map unat (map (\<lambda>(nm, mu, ml). mu) items) = map (\<lambda>(nm, mu, ml). unat mu) items"
    by (simp add: case_prod_beta)
  with r(3) have "unat (tot_memory out) =
      sum_list (map (\<lambda>(nm, mu, ml). unat mu) items) mod 2 ^ 64"
    by (simp only: unat_sum_list)
  moreover from r(1) have "distinct (hashtable_keys hashtable)"
    by (rule json_parser_list_distinct)
  ultimately show ?thesis
    using r by blast
qed

text \<open>The run over the example, in kB: two containers, 8310784 + 1500999 bytes.\<close>

theorem aggregation_summary_witness:
  \<open>podman_stats example_pv example_tokenise printf_g_unused k_shift None =
     (Inr \<lparr>tot_memory = 9811783,
          status = ''9811kB of memory used by 2 running containers'',
          perfdata = ''srv-redis-1=8310kB;;;0;8232525 srv-web-2=1500kB;;;0;4000000 ''\<rparr>,
      [(''io.podman.ListContainers'', None),
       (''io.podman.GetContainerStats'', Some ''{"name":"e15712d1"}''),
       (''io.podman.GetContainerStats'', Some ''{"name":"3b395e06"}'')])\<close>
proof -
  have run: \<open>podman_stats example_pv example_tokenise printf_g_unused k_shift None =
     (Inr \<lparr>tot_memory = 9811783,
          status = ''9811kB of memory used by 2 running containers'',
          perfdata = ''srv-redis-1=8310kB;;;0;8232525 srv-web-2=1500kB;;;0;4000000 ''\<rparr>,
      [(''io.podman.ListContainers'', None),
       (''io.podman.GetContainerStats'', Some ''{"name":"e15712d1"}''),
       (''io.podman.GetContainerStats'', Some ''{"name":"3b395e06"}'')])\<close>
    by (simp add: podman_stats_example)
  from run aggregation_summary [OF run] show ?thesis
    by (rule conjunct1 [OF conjI])
qed

text \<open>
  C6.  The claim says that every list document without the root key \<^verbatim>\<open>containers\<close>
  makes the aggregation fail with the root key error.  The scan compares the strings
  it meets at level 1 with the root key and does not ask for the key to be present,
  so this holds in the following form.  When the first token is the root object and
  the second one a string other than \<^verbatim>\<open>containers\<close>, the key of the first member of
  the root object, \<^verbatim>\<open>podman_stats\<close> stops with the root key error, returns nothing,
  and has called the connection for the list only.
\<close>

theorem missing_root_key_is_fatal:
  assumes "pv ''io.podman.ListContainers'' None = Inr json"
    and "json_tokenise json = Some (t0 # t1 # rest)"
    and "tok_type t0 = JSMN_OBJECT" and "tok_start t0 \<noteq> - 1" and "tok_end t0 \<noteq> - 1"
    and "tok_type t1 = JSMN_STRING" and "tok_start t1 \<noteq> - 1" and "tok_end t1 \<noteq> - 1"
    and "json_token_tostr json t1 \<noteq> ''containers''"
  shows \<open>podman_stats pv json_tokenise printf_g shift image_name =
           (Inl (plugin_error ''json_parser_list: expected string "containers" not found''),
            [(''io.podman.ListContainers'', None)])\<close>
  using assms
  by (simp add: podman_stats_def json_parser_list_def podman_varlink_get_def
      list_switch_def list_flush_def podman_array_is_full_def json_token_streq_def
      list_root_key_def)

text \<open>The document \<^verbatim>\<open>{"pods": []}\<close>.\<close>

theorem missing_root_key_is_fatal_witness:
  \<open>json_token_tostr pods_json (tok JSMN_STRING 2 6) = ''pods''
   \<and> podman_stats (pv_always pods_json) (tokenise_as pods_json pods_tokens)
         printf_g_unused b_shift None =
       (Inl (plugin_error ''json_parser_list: expected string "containers" not found''),
        [(''io.podman.ListContainers'', None)])\<close>
proof -
  have tokens: "tokenise_as pods_json pods_tokens pods_json =
      Some (tok JSMN_OBJECT 0 12 # tok JSMN_STRING 2 6 # [tok JSMN_ARRAY 9 11])"
    by (simp add: tokenise_as_def pods_tokens_def)
  have key: "json_token_tostr pods_json (tok JSMN_STRING 2 6) = ''pods''"
    by (simp add: json_token_tostr_def pods_json_def)
  have \<open>podman_stats (pv_always pods_json) (tokenise_as pods_json pods_tokens)
         printf_g_unused b_shift None =
       (Inl (plugin_error ''json_parser_list: expected string "containers" not found''),
        [(''io.podman.ListContainers'', None)])\<close>
    by (rule missing_root_key_is_fatal [where json = pods_json
          and ?t0.0 = "tok JSMN_OBJECT 0 12" and ?t1.0 = "tok JSMN_STRING 2 6"
          and rest = "[tok JSMN_ARRAY 9 11]"])
      (simp_all add: pv_always_def tokens key)
  with key show ?thesis by simp
qed

text \<open>
  C6 as it is stated fails on the document \<^verbatim>\<open>{}\<close>, which holds no string at all:
  the run returns, with no container.
\<close>

theorem empty_object_is_accepted:
  \<open>''containers'' \<notin> set (map (json_token_tostr empty_object_json) empty_object_tokens)
   \<and> podman_stats (pv_always empty_object_json)
         (tokenise_as empty_object_json empty_object_tokens) printf_g_unused b_shift None =
       (Inr \<lparr>tot_memory = 0, status = ''0B of memory used by 0 running containers'',
              perfdata = []\<rparr>,
        [(''io.podman.ListContainers'', None)])\<close>
  by (simp add: podman_stats_def call_defs scan_defs empty_object_json_def
      empty_object_tokens_def counter_get_unique_elements_def printf_u.simps)

text \<open>
  C7.  The claim says that a counter whose key does not appear in the document is 0
  in the record, and that this is no error.  The scan compares every string token
  with the keys, the key of a member or not, so this holds in the following form.
  When no token of the statistics document has the text \<^verbatim>\<open>mem_limit\<close>, the record
  that \<^verbatim>\<open>json_parser_stats\<close> returns has \<^verbatim>\<open>mem_limit\<close> 0, and the call does not fail
  on the conversion of that counter; the same holds for \<^verbatim>\<open>mem_usage\<close>.
\<close>

theorem absent_counters_are_zero:
  assumes \<open>pv ''io.podman.GetContainerStats'' (Some (''{"name":"'' @ ident @ ''"}'')) = Inr json\<close>
    and "json_tokenise json = Some tokens" and "length ident \<le> 68"
  shows "(''mem_limit'' \<notin> set (map (json_token_tostr json) tokens) \<longrightarrow>
           (case fst (json_parser_stats pv json_tokenise ident log) of
              Inr stats \<Rightarrow> mem_limit stats = 0
            | Inl e \<Rightarrow> e \<noteq> plugin_error ''failed to parse mem_limit counter''))
       \<and> (''mem_usage'' \<notin> set (map (json_token_tostr json) tokens) \<longrightarrow>
           (case fst (json_parser_stats pv json_tokenise ident log) of
              Inr stats \<Rightarrow> mem_usage stats = 0
            | Inl e \<Rightarrow> e \<noteq> plugin_error ''failed to parse mem_usage counter''))"
proof -
  let ?stats = "\<lparr>mem_limit = 0, mem_usage = 0, name = None\<rparr>"
  have run: "fst (json_parser_stats pv json_tokenise ident log) =
      stats_loop json tokens 0 [None, None, None] ?stats"
    using assms by (simp add: json_parser_stats_def podman_varlink_get_def)
  have "case stats_loop json tokens 0 [None, None, None] ?stats of
          Inr stats \<Rightarrow> mem_limit stats = 0
        | Inl e \<Rightarrow> e \<noteq> plugin_error ''failed to parse mem_limit counter''"
    if "''mem_limit'' \<notin> set (map (json_token_tostr json) tokens)"
  proof (rule stats_loop_untouched_slot [where j = 0 and s = None])
    from that show "\<forall>t \<in> set tokens. json_token_tostr json t \<noteq> stats_keys ! 0"
      by (force simp add: stats_keys_def)
  qed (use stats_update_without_mem_limit stats_switch_errors in auto)
  moreover have "case stats_loop json tokens 0 [None, None, None] ?stats of
          Inr stats \<Rightarrow> mem_usage stats = 0
        | Inl e \<Rightarrow> e \<noteq> plugin_error ''failed to parse mem_usage counter''"
    if "''mem_usage'' \<notin> set (map (json_token_tostr json) tokens)"
  proof (rule stats_loop_untouched_slot [where j = 1 and s = None])
    from that show "\<forall>t \<in> set tokens. json_token_tostr json t \<noteq> stats_keys ! 1"
      by (force simp add: stats_keys_def)
  qed (use stats_update_without_mem_usage stats_switch_errors in auto)
  ultimately show ?thesis
    by (simp only: run) blast
qed

text \<open>A document with a name and no counter is scanned without error.\<close>

theorem absent_counters_are_zero_witness:
  "''mem_limit'' \<notin> set (map (json_token_tostr name_only_json) name_only_tokens)
   \<and> ''mem_usage'' \<notin> set (map (json_token_tostr name_only_json) name_only_tokens)
   \<and> fst (json_parser_stats (pv_always name_only_json)
        (tokenise_as name_only_json name_only_tokens) ''e15712d1'' []) =
      Inr \<lparr>mem_limit = 0, mem_usage = 0, name = Some ''srv-redis-1''\<rparr>"
proof -
  have absent: "''mem_limit'' \<notin> set (map (json_token_tostr name_only_json) name_only_tokens)"
    "''mem_usage'' \<notin> set (map (json_token_tostr name_only_json) name_only_tokens)"
    by (simp_all add: json_token_tostr_def name_only_json_def name_only_tokens_def)
  have run: "fst (json_parser_stats (pv_always name_only_json)
        (tokenise_as name_only_json name_only_tokens) ''e15712d1'' []) =
      Inr \<lparr>mem_limit = 0, mem_usage = 0, name = Some ''srv-redis-1''\<rparr>"
    by (simp add: call_defs scan_defs name_only_json_def name_only_tokens_def)
  have "(case fst (json_parser_stats (pv_always name_only_json)
        (tokenise_as name_only_json name_only_tokens) ''e15712d1'' []) of
              Inr stats \<Rightarrow> mem_limit stats = 0
            | Inl e \<Rightarrow> e \<noteq> plugin_error ''failed to parse mem_limit counter'')
       \<and> (case fst (json_parser_stats (pv_always name_only_json)
        (tokenise_as name_only_json name_only_tokens) ''e15712d1'' []) of
              Inr stats \<Rightarrow> mem_usage stats = 0
            | Inl e \<Rightarrow> e \<noteq> plugin_error ''failed to parse mem_usage counter'')"
    using absent_counters_are_zero [where pv = "pv_always name_only_json"
        and json_tokenise = "tokenise_as name_only_json name_only_tokens"
        and ident = "''e15712d1''" and json = name_only_json and tokens = name_only_tokens
        and log = "[]"] absent
    by (simp add: pv_always_def tokenise_as_def)
  with absent run show ?thesis by simp
qed

text \<open>
  C7 as it is stated fails on documents that have no member with the key of a
  counter, but a string with that text: as an element of the array \<^verbatim>\<open>labels\<close> it
  takes the next element 7 for \<^verbatim>\<open>mem_usage\<close>, and as the value of \<^verbatim>\<open>status\<close> it takes
  the next key \<^verbatim>\<open>name\<close> for \<^verbatim>\<open>mem_limit\<close>, which is not a number.
\<close>

theorem counter_taken_from_a_value:
  \<open>json_token_tostr labels_json (tok JSMN_OBJECT 14 55) =
     ''{"labels": ["mem_usage", 7], "name": "x"}''
   \<and> fst (json_parser_stats (pv_always labels_json)
          (tokenise_as labels_json labels_tokens) ''e15712d1'' []) =
       Inr \<lparr>mem_limit = 0, mem_usage = 7, name = Some ''x''\<rparr>
   \<and> json_token_tostr status_value_json (tok JSMN_OBJECT 14 50) =
     ''{"status": "mem_limit", "name": "x"}''
   \<and> fst (json_parser_stats (pv_always status_value_json)
          (tokenise_as status_value_json status_value_tokens) ''e15712d1'' []) =
       Inl (plugin_error ''failed to parse mem_limit counter'')\<close>
  by (simp add: call_defs scan_defs labels_json_def labels_tokens_def
      status_value_json_def status_value_tokens_def)

text \<open>
  C8.  The claim says that of two occurrences of a key in a window the first one
  gives the value of the slot.  Each match assigns the slot again, so it is the last
  match that wins.  In the list scan a scanned key assigns its slot whatever the slot
  held.  In the statistics scan, when a scanned key does not occur again among the
  later tokens, the record returned holds the value that follows this occurrence,
  whatever the slots and the record held before.
\<close>

theorem last_match_wins:
  assumes "tok_type t = JSMN_STRING" and "level \<noteq> 1" and "j < 3"
    and "json_token_tostr json t = list_keys ! j"
    and "tok_type t' = JSMN_STRING" and "tok_start t' \<noteq> - 1" and "tok_end t' \<noteq> - 1"
    and "length vals' = 3"
    and "\<forall>u \<in> set rest'. json_token_tostr json' u \<noteq> json_token_tostr json' t'"
    and "stats_loop json' (t' # v' # rest') level' vals' stats = Inr stats'"
  shows "list_switch json t (v # rest) level vals =
           Inr (1, level, vals[j := Some (json_token_tostr json v)])
       \<and> (json_token_tostr json' t' = ''mem_limit'' \<longrightarrow>
            strtol_or_err (json_token_tostr json' v') ''failed to parse mem_limit counter'' =
              Inr (mem_limit stats'))
       \<and> (json_token_tostr json' t' = ''mem_usage'' \<longrightarrow>
            strtol_or_err (json_token_tostr json' v') ''failed to parse mem_usage counter'' =
              Inr (mem_usage stats'))
       \<and> (json_token_tostr json' t' = ''name'' \<longrightarrow>
            name stats' = Some (json_token_tostr json' v'))"
proof (intro conjI impI)
  show "list_switch json t (v # rest) level vals =
      Inr (1, level, vals[j := Some (json_token_tostr json v)])"
    using assms(1-4) by (rule list_switch_key)
next
  assume "json_token_tostr json' t' = ''mem_limit''"
  then have key: "json_token_tostr json' t' = stats_keys ! 0"
    by (simp add: stats_keys_def)
  show "strtol_or_err (json_token_tostr json' v')
      ''failed to parse mem_limit counter'' = Inr (mem_limit stats')"
    by (rule stats_loop_last_value [where j = 0, OF assms(5-8) _ key assms(9,10)])
      (simp_all add: stats_update_stores)
next
  assume "json_token_tostr json' t' = ''mem_usage''"
  then have key: "json_token_tostr json' t' = stats_keys ! 1"
    by (simp add: stats_keys_def)
  show "strtol_or_err (json_token_tostr json' v')
      ''failed to parse mem_usage counter'' = Inr (mem_usage stats')"
    by (rule stats_loop_last_value [where j = 1, OF assms(5-8) _ key assms(9,10)])
      (simp_all add: stats_update_stores)
next
  assume "json_token_tostr json' t' = ''name''"
  then have key: "json_token_tostr json' t' = stats_keys ! 2"
    by (simp add: stats_keys_def)
  show "name stats' = Some (json_token_tostr json' v')"
    by (rule stats_loop_last_value [where j = 2, OF assms(5-8) _ key assms(9,10)])
      (simp_all add: stats_update_stores)
qed

text \<open>
  The second occurrence of each key in the documents above, met with the value of
  the first occurrence in its slot.
\<close>

theorem last_match_wins_witness:
  "list_switch twice_list_json (tok JSMN_STRING 66 68)
      [tok JSMN_STRING 72 84, tok JSMN_STRING 88 93, tok JSMN_STRING 97 102] 2
      [Some ''true'', Some ''aaaaaaaa1111'', None] =
     Inr (1, 2, [Some ''true'', Some ''bbbbbbbb2222'', None])
   \<and> stats_loop twice_stats_json
       [tok JSMN_STRING 33 42, tok JSMN_PRIMITIVE 45 47, tok JSMN_STRING 50 59,
        tok JSMN_PRIMITIVE 62 63, tok JSMN_STRING 66 75, tok JSMN_PRIMITIVE 78 79,
        tok JSMN_STRING 82 86, tok JSMN_STRING 90 95, tok JSMN_STRING 99 103,
        tok JSMN_STRING 107 113] 2
       [Some ''10'', None, None] \<lparr>mem_limit = 10, mem_usage = 0, name = None\<rparr> =
     Inr \<lparr>mem_limit = 20, mem_usage = 2, name = Some ''second''\<rparr>
   \<and> strtol_or_err (json_token_tostr twice_stats_json (tok JSMN_PRIMITIVE 45 47))
       ''failed to parse mem_limit counter'' = Inr 20
   \<and> stats_loop twice_stats_json
       [tok JSMN_STRING 66 75, tok JSMN_PRIMITIVE 78 79,
        tok JSMN_STRING 82 86, tok JSMN_STRING 90 95, tok JSMN_STRING 99 103,
        tok JSMN_STRING 107 113] 2
       [Some ''20'', Some ''1'', None] \<lparr>mem_limit = 20, mem_usage = 1, name = None\<rparr> =
     Inr \<lparr>mem_limit = 20, mem_usage = 2, name = Some ''second''\<rparr>
   \<and> strtol_or_err (json_token_tostr twice_stats_json (tok JSMN_PRIMITIVE 78 79))
       ''failed to parse mem_usage counter'' = Inr 2
   \<and> stats_loop twice_stats_json [tok JSMN_STRING 99 103, tok JSMN_STRING 107 113] 2
       [Some ''20'', Some ''2'', Some ''first'']
       \<lparr>mem_limit = 20, mem_usage = 2, name = Some ''first''\<rparr> =
     Inr \<lparr>mem_limit = 20, mem_usage = 2, name = Some ''second''\<rparr>
   \<and> json_token_tostr twice_stats_json (tok JSMN_STRING 107 113) = ''second''"
proof -
  have id_key: "json_token_tostr twice_list_json (tok JSMN_STRING 66 68) = list_keys ! 1"
    by (simp add: json_token_tostr_def twice_list_json_def list_keys_def)
  have run0: "stats_loop twice_stats_json
       (tok JSMN_STRING 33 42 # tok JSMN_PRIMITIVE 45 47 # [tok JSMN_STRING 50 59,
        tok JSMN_PRIMITIVE 62 63, tok JSMN_STRING 66 75, tok JSMN_PRIMITIVE 78 79,
        tok JSMN_STRING 82 86, tok JSMN_STRING 90 95, tok JSMN_STRING 99 103,
        tok JSMN_STRING 107 113]) 2
       [Some ''10'', None, None] \<lparr>mem_limit = 10, mem_usage = 0, name = None\<rparr> =
     Inr \<lparr>mem_limit = 20, mem_usage = 2, name = Some ''second''\<rparr>"
    by (simp add: scan_defs twice_stats_json_def)
  have run1: "stats_loop twice_stats_json
       (tok JSMN_STRING 66 75 # tok JSMN_PRIMITIVE 78 79 #
        [tok JSMN_STRING 82 86, tok JSMN_STRING 90 95, tok JSMN_STRING 99 103,
        tok JSMN_STRING 107 113]) 2
       [Some ''20'', Some ''1'', None] \<lparr>mem_limit = 20, mem_usage = 1, name = None\<rparr> =
     Inr \<lparr>mem_limit = 20, mem_usage = 2, name = Some ''second''\<rparr>"
    by (simp add: scan_defs twice_stats_json_def)
  have run2: "stats_loop twice_stats_json (tok JSMN_STRING 99 103 # tok JSMN_STRING 107 113 # []) 2
       [Some ''20'', Some ''2'', Some ''first'']
       \<lparr>mem_limit = 20, mem_usage = 2, name = Some ''first''\<rparr> =
     Inr \<lparr>mem_limit = 20, mem_usage = 2, name = Some ''second''\<rparr>"
    by (simp add: scan_defs twice_stats_json_def)
  have texts: "json_token_tostr twice_stats_json (tok JSMN_STRING 33 42) = ''mem_limit''"
    "json_token_tostr twice_stats_json (tok JSMN_STRING 66 75) = ''mem_usage''"
    "json_token_tostr twice_stats_json (tok JSMN_STRING 99 103) = ''name''"
    by (simp_all add: json_token_tostr_def twice_stats_json_def)
  have two: "(2::nat) \<noteq> 1" and one: "(1::nat) < 3"
    by simp_all
  note list = last_match_wins [where t = "tok JSMN_STRING 66 68" and json = twice_list_json
      and v = "tok JSMN_STRING 72 84" and rest = "[tok JSMN_STRING 88 93, tok JSMN_STRING 97 102]"
      and vals = "[Some ''true'', Some ''aaaaaaaa1111'', None]", OF _ two one id_key]
  have a: "list_switch twice_list_json (tok JSMN_STRING 66 68)
      [tok JSMN_STRING 72 84, tok JSMN_STRING 88 93, tok JSMN_STRING 97 102] 2
      [Some ''true'', Some ''aaaaaaaa1111'', None] =
     Inr (1, 2, [Some ''true'', Some ''bbbbbbbb2222'', None])
    \<and> strtol_or_err (json_token_tostr twice_stats_json (tok JSMN_PRIMITIVE 45 47))
       ''failed to parse mem_limit counter'' = Inr 20"
    using list [OF _ _ _ _ _ _ run0]
    by (simp add: texts json_token_tostr_def twice_stats_json_def twice_list_json_def)
  have b: "strtol_or_err (json_token_tostr twice_stats_json (tok JSMN_PRIMITIVE 78 79))
       ''failed to parse mem_usage counter'' = Inr 2"
    using list [OF _ _ _ _ _ _ run1]
    by (simp add: texts json_token_tostr_def twice_stats_json_def)
  have c: "json_token_tostr twice_stats_json (tok JSMN_STRING 107 113) = ''second''"
    using list [OF _ _ _ _ _ _ run2]
    by (simp add: texts)
  from a b c run0 run1 run2 show ?thesis by simp
qed

text \<open>
  C8 as it is stated fails on the document with the members
  \<^verbatim>\<open>"name": "first", "name": "second"\<close>: the name returned is \<^verbatim>\<open>second\<close>, the counters
  are those of the second occurrences, and the list with two \<^verbatim>\<open>id\<close> members counts
  the second identifier.
\<close>

theorem first_match_does_not_win:
  "json_token_tostr twice_stats_json (tok JSMN_STRING 90 95) = ''first''
   \<and> json_token_tostr twice_stats_json (tok JSMN_PRIMITIVE 62 63) = ''1''
   \<and> json_token_tostr twice_stats_json (tok JSMN_PRIMITIVE 28 30) = ''10''
   \<and> fst (json_parser_stats (pv_always twice_stats_json)
          (tokenise_as twice_stats_json twice_stats_tokens) ''e15712d1'' []) =
       Inr \<lparr>mem_limit = 20, mem_usage = 2, name = Some ''second''\<rparr>
   \<and> json_token_tostr twice_list_json (tok JSMN_STRING 50 62) = ''aaaaaaaa1111''
   \<and> fst (json_parser_list (pv_always twice_list_json)
          (tokenise_as twice_list_json twice_list_tokens) None []) =
       Inr [(''bbbbbbbb'', 1)]"
  by (simp add: call_defs scan_defs twice_stats_json_def twice_stats_tokens_def
      twice_list_json_def twice_list_tokens_def)

text \<open>
  C9.  The claim says that the token after a matched key is skipped, and from this
  that no string value that equals the name of a key is taken for a key or raises a
  schema error.  The scan skips the value of a matched key and no other value, so
  this holds in the following form.  In both scans, when a string token that equals
  a target key reaches the comparison with the keys (at level 1 a string other than
  the root key stops the scan before), the next token gives the value of the slot
  and the scan goes on behind it at the same level: of the next token only the text
  is read, so that its type, its span and its text are compared with nothing.
\<close>

theorem value_token_is_skipped:
  assumes "tok_type t = JSMN_STRING" and "tok_start t \<noteq> - 1" and "tok_end t \<noteq> - 1"
    and "level \<noteq> 1" and "j < 3" and "json_token_tostr json t = list_keys ! j"
    and "tok_type t' = JSMN_STRING" and "tok_start t' \<noteq> - 1" and "tok_end t' \<noteq> - 1"
    and "level' \<noteq> 1" and "j' < 3" and "json_token_tostr json' t' = stats_keys ! j'"
  shows "list_loop json image_name (t # v # rest) level vals hashtable =
           (case list_flush image_name (vals[j := Some (json_token_tostr json v)]) hashtable of
              Inl e \<Rightarrow> Inl e
            | Inr (vals1, hashtable1) \<Rightarrow> list_loop json image_name rest level vals1 hashtable1)
       \<and> stats_loop json' (t' # v' # rest') level' vals' stats =
           (case stats_update (vals'[j' := Some (json_token_tostr json' v')]) stats of
              Inl e \<Rightarrow> Inl e
            | Inr stats1 \<Rightarrow>
                stats_loop json' rest' level' (vals'[j' := Some (json_token_tostr json' v')]) stats1)"
proof -
  from assms(1,4-6) have "list_switch json t (v # rest) level vals =
      Inr (1, level, vals[j := Some (json_token_tostr json v)])"
    by (rule list_switch_key)
  moreover from assms(7,10-12) have "stats_switch json' t' (v' # rest') level' vals' =
      Inr (1, level', vals'[j' := Some (json_token_tostr json' v')])"
    by (rule stats_switch_key)
  ultimately show ?thesis
    using assms(2,3,8,9) by (simp split: sum.splits prod.splits)
qed

text \<open>
  The values \<^verbatim>\<open>"id"\<close> of the key \<^verbatim>\<open>image\<close> and \<^verbatim>\<open>"mem_usage"\<close> of the key \<^verbatim>\<open>name\<close>
  are stored and not taken for keys.
\<close>

theorem value_token_is_skipped_witness:
  "json_token_tostr value_is_key_list_json (tok JSMN_STRING 75 77) = ''id''
   \<and> list_loop value_is_key_list_json None [tok JSMN_STRING 66 71, tok JSMN_STRING 75 77] 2
         [Some ''true'', Some ''0123456789ab'', None] counter_create =
       Inr [(''01234567'', 1)]
   \<and> json_token_tostr value_is_key_json (tok JSMN_STRING 24 33) = ''mem_usage''
   \<and> stats_loop value_is_key_json
         [tok JSMN_STRING 16 20, tok JSMN_STRING 24 33, tok JSMN_STRING 37 46,
          tok JSMN_PRIMITIVE 49 50] 2
         [None, None, None] \<lparr>mem_limit = 0, mem_usage = 0, name = None\<rparr> =
       Inr \<lparr>mem_limit = 7, mem_usage = 0, name = Some ''mem_usage''\<rparr>"
proof -
  have k: "json_token_tostr value_is_key_list_json (tok JSMN_STRING 66 71) = list_keys ! 2"
    by (simp add: json_token_tostr_def value_is_key_list_json_def list_keys_def)
  have k': "json_token_tostr value_is_key_json (tok JSMN_STRING 16 20) = stats_keys ! 2"
    by (simp add: json_token_tostr_def value_is_key_json_def stats_keys_def)
  have "(2::nat) \<noteq> 1" and "(2::nat) < 3"
    by simp_all
  note inst = value_token_is_skipped [where t = "tok JSMN_STRING 66 71"
      and t' = "tok JSMN_STRING 16 20" and level = 2 and level' = 2 and image_name = None
      and v = "tok JSMN_STRING 75 77" and rest = "[]"
      and vals = "[Some ''true'', Some ''0123456789ab'', None]"
      and hashtable = counter_create
      and v' = "tok JSMN_STRING 24 33"
      and rest' = "[tok JSMN_STRING 37 46, tok JSMN_PRIMITIVE 49 50]"
      and vals' = "[None, None, None]"
      and stats = "\<lparr>mem_limit = 0, mem_usage = 0, name = None\<rparr>",
      OF _ _ _ \<open>(2::nat) \<noteq> 1\<close> \<open>(2::nat) < 3\<close> k _ _ _ \<open>(2::nat) \<noteq> 1\<close> \<open>(2::nat) < 3\<close> k']
  from inst show ?thesis
    by (simp add: scan_defs value_is_key_list_json_def value_is_key_json_def)
qed

text \<open>
  C9 as it is stated fails for the string values of other keys: the value \<^verbatim>\<open>name\<close>
  of the key \<^verbatim>\<open>id\<close> takes the next key \<^verbatim>\<open>pids\<close> for the name, the value \<^verbatim>\<open>id\<close> of the
  key \<^verbatim>\<open>names\<close> takes the next key \<^verbatim>\<open>runningfor\<close> for the identifier, and the value
  \<^verbatim>\<open>id\<close> of the root key is met at level 1 and raises the root key error.
\<close>

theorem string_value_taken_for_a_key:
  \<open>fst (json_parser_stats (pv_always stray_value_json)
          (tokenise_as stray_value_json stray_value_tokens) ''e15712d1'' []) =
       Inr \<lparr>mem_limit = 0, mem_usage = 0, name = Some ''pids''\<rparr>
   \<and> fst (json_parser_list (pv_always stray_value_list_json)
          (tokenise_as stray_value_list_json stray_value_list_tokens) None []) =
       Inr [(''runningf'', 1)]
   \<and> fst (json_parser_list (pv_always root_value_json)
          (tokenise_as root_value_json root_value_tokens) None []) =
       Inl (plugin_error ''json_parser_list: expected string "containers" not found'')\<close>
  by (simp add: call_defs scan_defs stray_value_json_def stray_value_tokens_def
      stray_value_list_json_def stray_value_list_tokens_def root_value_json_def
      root_value_tokens_def)

text \<open>
  C10.  When the first token is an array, both scans stop at level 0 with the error
  that the root element must be an object, as they do when it is a primitive.
\<close>

theorem root_array_rejected:
  assumes "tok_type t = JSMN_ARRAY \<or> tok_type t = JSMN_PRIMITIVE" and "tok_start t \<noteq> - 1" and "tok_end t \<noteq> - 1"
    and "json_tokenise json = Some (t # rest)"
    and "pv ''io.podman.ListContainers'' None = Inr json"
    and \<open>pv ''io.podman.GetContainerStats'' (Some (''{"name":"'' @ ident @ ''"}'')) = Inr json\<close>
    and "length ident \<le> 68"
  shows "fst (json_parser_list pv json_tokenise image_name log) =
           Inl (plugin_error ''json_parser_list: root element must be an object'')
       \<and> fst (json_parser_stats pv json_tokenise ident log) =
           Inl (plugin_error ''json_parser_stats: root element must be an object'')"
  using assms
  by (auto simp add: json_parser_list_def json_parser_stats_def podman_varlink_get_def
      list_switch_def stats_switch_def)

text \<open>The document \<^verbatim>\<open>[{"containers": []}]\<close>.\<close>

theorem root_array_rejected_witness:
  \<open>fst (json_parser_list (pv_always array_root_json)
          (tokenise_as array_root_json array_root_tokens) None []) =
       Inl (plugin_error ''json_parser_list: root element must be an object'')
   \<and> fst (json_parser_stats (pv_always array_root_json)
          (tokenise_as array_root_json array_root_tokens) ''e15712d1'' []) =
       Inl (plugin_error ''json_parser_stats: root element must be an object'')\<close>
proof -
  have tokens: "tokenise_as array_root_json array_root_tokens array_root_json =
      Some (tok JSMN_ARRAY 0 20 # tl array_root_tokens)"
    by (simp add: tokenise_as_def array_root_tokens_def)
  show ?thesis
    by (rule root_array_rejected [where t = "tok JSMN_ARRAY 0 20"
          and rest = "tl array_root_tokens" and json = array_root_json])
      (simp_all add: pv_always_def tokens)
qed

end
